theory Spec2Isabelle
  imports Main
begin

section \<open>Game server commands (game\_server\_commands)\<close>

subsection \<open>Errors and result codes\<close>

text \<open>A Go \<open>error\<close> value is represented by its message; \<open>nil\<close> is \<open>None\<close> of
  \<open>error option\<close>.\<close>

datatype error = Error string

text \<open>\<open>errors.WithMessage(err, msg)\<close>: the message is prefixed.\<close>

fun WithMessage :: "error \<Rightarrow> string \<Rightarrow> error" where
  "WithMessage (Error m) msg = Error (msg @ '': '' @ m)"

definition UnknownResult :: int where "UnknownResult = - 1"
definition SuccessResult :: int where "SuccessResult = 0"
definition ErrorResult :: int where "ErrorResult = 1"

subsection \<open>baseCommand and bufCommand\<close>

text \<open>Of \<open>baseCommand\<close> only the mutable fields are state; \<open>cfg\<close>, \<open>executor\<close> and the
  mutex carry none.\<close>

record baseCommand =
  complete :: bool
  result :: int

definition newBaseCommand :: baseCommand where
  "newBaseCommand = \<lparr>complete = False, result = UnknownResult\<rparr>"

definition Result :: "'a baseCommand_scheme \<Rightarrow> int" where
  "Result c = result c"

definition SetResult :: "'a baseCommand_scheme \<Rightarrow> int \<Rightarrow> 'a baseCommand_scheme" where
  "SetResult c r = c\<lparr>result := r\<rparr>"

definition IsComplete :: "'a baseCommand_scheme \<Rightarrow> bool" where
  "IsComplete c = complete c"

definition SetComplete :: "'a baseCommand_scheme \<Rightarrow> 'a baseCommand_scheme" where
  "SetComplete c = c\<lparr>complete := True\<rparr>"

text \<open>\<open>bufCommand.output\<close> (here \<open>outputBuf\<close>) is an \<open>io.ReadWriter\<close> interface value:
  \<open>None\<close> is the nil interface, \<open>Some bs\<close> a buffer holding the unread bytes \<open>bs\<close>.\<close>

record bufCommand = baseCommand +
  outputBuf :: "string option"

text \<open>How a Go call ends: it panics, or it returns a value.\<close>

datatype 'a call = Panic | Return 'a

subsection \<open>Sub-commands behind the interface \<open>contracts.GameServerCommand\<close>\<close>

text \<open>The primitive commands (start, stop, status, install, delete) are not part of the
  sources at hand. A composite sees them through the interface only, so a sub-command is an
  object with its observable state and the behaviour of its \<open>Execute\<close>. The type \<open>'w\<close>
  is everything \<open>Execute(ctx, server)\<close> acts on outside the command: the server and the
  host. \<open>buffer\<close> holds the output written and not yet read.\<close>

record commandState = baseCommand +
  buffer :: string

record 'w GameServerCommand =
  state :: commandState
  behaviour :: "'w \<Rightarrow> commandState \<Rightarrow> error option \<times> commandState \<times> 'w"

definition Execute :: "'w GameServerCommand \<Rightarrow> 'w \<Rightarrow> error option \<times> 'w GameServerCommand \<times> 'w" where
  "Execute c w = (case behaviour c w (state c) of (err, s, w') \<Rightarrow> (err, c\<lparr>state := s\<rparr>, w'))"

text \<open>\<open>ReadOutput\<close> of a sub-command is \<open>bufCommand.ReadOutput\<close>: \<open>io.ReadAll\<close> returns the
  unread bytes and leaves the buffer drained.\<close>

definition ReadOutput :: "'w GameServerCommand \<Rightarrow> string \<times> 'w GameServerCommand" where
  "ReadOutput c = (buffer (state c), c\<lparr>state := (state c)\<lparr>buffer := []\<rparr>\<rparr>)"

subsection \<open>commandList\<close>

record 'w commandList = baseCommand +
  commands :: "'w GameServerCommand list"

definition newCommandList :: "'w GameServerCommand list \<Rightarrow> 'w commandList" where
  "newCommandList cs =
     \<lparr>complete = complete newBaseCommand, result = result newBaseCommand, commands = cs\<rparr>"

text \<open>\<open>commandList.ReadOutput\<close>: the loop appends each sub-command's output.\<close>

fun read_outputs :: "'w GameServerCommand list \<Rightarrow> string \<times> 'w GameServerCommand list" where
  "read_outputs [] = ([], [])"
| "read_outputs (c # cs) =
     (case ReadOutput c of (out, c') \<Rightarrow>
        (case read_outputs cs of (outs, cs') \<Rightarrow> (out @ outs, c' # cs')))"

definition commandList_ReadOutput :: "'w commandList \<Rightarrow> string \<times> 'w commandList" where
  "commandList_ReadOutput c =
     (case read_outputs (commands c) of (out, cs) \<Rightarrow> (out, c\<lparr>commands := cs\<rparr>))"

text \<open>The loop of \<open>commandList.Execute\<close> leaves in one of three ways: the \<open>return err\<close>,
  the \<open>return nil\<close> after a result that is not \<open>SuccessResult\<close>, or the end of the range.\<close>

datatype loop_exit = ReturnErr error | ReturnResult int | RangeEnd

fun execute_commands ::
  "'w GameServerCommand list \<Rightarrow> 'w \<Rightarrow> loop_exit \<times> 'w GameServerCommand list \<times> 'w" where
  "execute_commands [] w = (RangeEnd, [], w)"
| "execute_commands (c # cs) w =
     (case Execute c w of (err, c', w') \<Rightarrow>
        (case err of
           Some e \<Rightarrow> (ReturnErr e, c' # cs, w')
         | None \<Rightarrow>
             if Result (state c') \<noteq> SuccessResult
             then (ReturnResult (Result (state c')), c' # cs, w')
             else (case execute_commands cs w' of (x, cs', w'') \<Rightarrow> (x, c' # cs', w''))))"

definition commandList_Execute ::
  "'w commandList \<Rightarrow> 'w \<Rightarrow> error option \<times> 'w commandList \<times> 'w" where
  "commandList_Execute c w =
     (case execute_commands (commands c) w of (x, cs, w') \<Rightarrow>
        (case x of
           ReturnErr e \<Rightarrow> (Some e, c\<lparr>commands := cs\<rparr>, w')
         | ReturnResult r \<Rightarrow> (None, SetComplete (SetResult (c\<lparr>commands := cs\<rparr>) r), w')
         | RangeEnd \<Rightarrow> (None, SetResult (SetComplete (c\<lparr>commands := cs\<rparr>)) SuccessResult, w')))"

subsection \<open>defaultRestartServer\<close>

text \<open>\<open>scriptsRestart\<close> is \<open>cfg.Scripts.Restart\<close>. \<open>processManagerRestart\<close> is the
  supervisor's \<open>Restart(ctx, server, out)\<close>: it yields the result, the error and the bytes
  it wrote to \<open>out\<close>.\<close>

record 'w defaultRestartServer = bufCommand +
  scriptsRestart :: string
  processManagerRestart :: "'w \<Rightarrow> (int \<times> error option) \<times> string \<times> 'w"
  statusServer :: "'w GameServerCommand"
  stopServer :: "'w GameServerCommand"
  startServer :: "'w GameServerCommand"

definition newDefaultRestartServer ::
  "string \<Rightarrow> ('w \<Rightarrow> (int \<times> error option) \<times> string \<times> 'w) \<Rightarrow>
   'w GameServerCommand \<Rightarrow> 'w GameServerCommand \<Rightarrow> 'w GameServerCommand \<Rightarrow>
   'w defaultRestartServer" where
  "newDefaultRestartServer restartScript pm statusCmd stopCmd startCmd =
     \<lparr>complete = complete newBaseCommand, result = result newBaseCommand,
      outputBuf = Some [], scriptsRestart = restartScript, processManagerRestart = pm,
      statusServer = statusCmd, stopServer = stopCmd, startServer = startCmd\<rparr>"

text \<open>The end of \<open>restartViaStopStart\<close>, from \<open>err = cmd.startServer.Execute\<close> on; both
  branches of \<open>if active\<close> reach it. The deferred \<open>SetComplete\<close> runs at every return.\<close>

definition restartViaStopStart_start ::
  "'w defaultRestartServer \<Rightarrow> 'w \<Rightarrow> error option \<times> 'w defaultRestartServer \<times> 'w" where
  "restartViaStopStart_start cmd w =
     (case Execute (startServer cmd) w of (err, c, w') \<Rightarrow>
        (let cmd' = cmd\<lparr>startServer := c\<rparr> in
         case err of
           Some e \<Rightarrow> (Some e, SetComplete cmd', w')
         | None \<Rightarrow> (None, SetComplete (SetResult cmd' (Result (state c))), w')))"

definition restartViaStopStart ::
  "'w defaultRestartServer \<Rightarrow> 'w \<Rightarrow> error option \<times> 'w defaultRestartServer \<times> 'w" where
  "restartViaStopStart cmd w =
     (case Execute (statusServer cmd) w of (err, c, w1) \<Rightarrow>
        (let cmd1 = cmd\<lparr>statusServer := c\<rparr> in
         case err of
           Some e \<Rightarrow>
             (Some (WithMessage e ''failed to check server status''), SetComplete cmd1, w1)
         | None \<Rightarrow>
             (let active = (Result (state c) = SuccessResult) in
              if active then
                (case Execute (stopServer cmd1) w1 of (err, c, w2) \<Rightarrow>
                   (let cmd2 = cmd1\<lparr>stopServer := c\<rparr> in
                    case err of
                      Some e \<Rightarrow>
                        (Some (WithMessage e ''failed to stop server''), SetComplete cmd2, w2)
                    | None \<Rightarrow>
                        if Result (state c) \<noteq> SuccessResult
                        then (None, SetComplete (SetResult cmd2 (Result (state c))), w2)
                        else restartViaStopStart_start cmd2 w2))
              else restartViaStopStart_start cmd1 w1)))"

definition defaultRestartServer_Execute ::
  "'w defaultRestartServer \<Rightarrow> 'w \<Rightarrow> error option \<times> 'w defaultRestartServer \<times> 'w" where
  "defaultRestartServer_Execute cmd0 w =
     (let cmd = cmd0\<lparr>outputBuf := Some []\<rparr> in
      if scriptsRestart cmd = [] then restartViaStopStart cmd w
      else
        (case processManagerRestart cmd w of ((r, err), written, w') \<Rightarrow>
           (err, SetComplete (SetResult (cmd\<lparr>outputBuf := Some written\<rparr>) r), w')))"

text \<open>\<open>io.ReadAll(cmd.output)\<close> reads the buffer empty; on a nil \<open>output\<close> it panics.\<close>

definition defaultRestartServer_ReadOutput ::
  "'w defaultRestartServer \<Rightarrow> string call \<times> 'w defaultRestartServer" where
  "defaultRestartServer_ReadOutput cmd =
     (if scriptsRestart cmd = [] then
        (case ReadOutput (statusServer cmd) of (statusOut, c1) \<Rightarrow>
         case ReadOutput (stopServer cmd) of (stopOut, c2) \<Rightarrow>
         case ReadOutput (startServer cmd) of (startOut, c3) \<Rightarrow>
           (Return ((([] @ statusOut) @ stopOut) @ startOut),
            cmd\<lparr>statusServer := c1, stopServer := c2, startServer := c3\<rparr>))
      else
        (case outputBuf cmd of
           None \<Rightarrow> (Panic, cmd)
         | Some bs \<Rightarrow> (Return bs, cmd\<lparr>outputBuf := Some []\<rparr>)))"

subsection \<open>nilCommand\<close>

record nilCommand = bufCommand +
  message :: string
  resultCode :: int

text \<open>\<open>n.output.Write\<close> is a method call on an interface value: on the nil interface it
  panics, after \<open>SetComplete\<close> and \<open>SetResult\<close> have taken effect.\<close>

definition nilCommand_Execute :: "nilCommand \<Rightarrow> error option call \<times> nilCommand" where
  "nilCommand_Execute n =
     (let n1 = SetComplete n;
          n2 = SetResult n1 (resultCode n1)
      in case outputBuf n2 of
           None \<Rightarrow> (Panic, n2)
         | Some bs \<Rightarrow> (Return None, n2\<lparr>outputBuf := Some (bs @ message n2)\<rparr>))"

text \<open>The composite literal of \<open>newNotImplementedCommand\<close> names \<open>baseCommand\<close>, \<open>message\<close>
  and \<open>resultCode\<close>; \<open>bufCommand\<close> is left at its zero value, whose \<open>output\<close> is nil.\<close>

definition newNotImplementedCommand :: nilCommand where
  "newNotImplementedCommand =
     \<lparr>complete = complete newBaseCommand, result = result newBaseCommand,
      outputBuf = None, message = ''not implemented command'', resultCode = ErrorResult\<rparr>"

subsection \<open>ServerCommandFactory.LoadServerCommand\<close>

datatype ServerCommand =
  Start | Pause | Unpause | Status | Stop | Kill | Restart | Update | Install | Reinstall | Delete

text \<open>The commands the factory builds, by constructor call. The argument of \<open>newStartServer\<close>
  that matters is the loader it is given: the factory's own, or \<open>nilLoadServerCommandFunc\<close>.\<close>

datatype loader = FactoryLoadServerCommand | NilLoadServerCommandFunc

datatype loaded =
  StartServer loader
| StopServer
| StatusServer
| RestartServer loaded loaded loaded
| InstallServer loaded loaded loaded
| UpdateServer loaded loaded loaded
| DeleteServer
| CommandList "loaded list"
| NilCommand nilCommand

text \<open>The Go \<open>switch\<close> does not fall through: the empty clause \<open>case domain.Pause:\<close> leaves the
  switch, and the function ends in \<open>return nil\<close>.\<close>

fun LoadServerCommand :: "ServerCommand \<Rightarrow> loaded option" where
  "LoadServerCommand Start = Some (StartServer FactoryLoadServerCommand)"
| "LoadServerCommand Stop = Some StopServer"
| "LoadServerCommand Kill = Some StopServer"
| "LoadServerCommand Restart =
     Some (RestartServer StatusServer StopServer (StartServer FactoryLoadServerCommand))"
| "LoadServerCommand Status = Some StatusServer"
| "LoadServerCommand Install =
     Some (InstallServer StatusServer StopServer (StartServer NilLoadServerCommandFunc))"
| "LoadServerCommand Update =
     Some (UpdateServer StatusServer StopServer (StartServer NilLoadServerCommandFunc))"
| "LoadServerCommand Reinstall =
     Some (CommandList
       [DeleteServer,
        InstallServer StatusServer StopServer (StartServer NilLoadServerCommandFunc)])"
| "LoadServerCommand Delete = Some DeleteServer"
| "LoadServerCommand Pause = None"
| "LoadServerCommand Unpause = Some (NilCommand newNotImplementedCommand)"

section \<open>The service-manager supervisor (processmanager, WinSW)\<close>

text \<open>Modelled from the spec: \<open>domain.Result\<close>, \<open>domain.SuccessResult\<close> and
  \<open>domain.ErrorResult\<close> are declared outside the sources at hand. \<open>Result\<close> is an integer
  type (\<open>runWinSWCommand\<close> converts the exit code to it, \<open>Execute\<close> converts it back with
  \<open>int(result)\<close>), and the distinguished constants are \<open>SuccessResult (0)\<close> and
  \<open>ErrorResult (1)\<close>; the constants of the commands package above stand for them.\<close>

definition errorCodeCannotStart :: int where "errorCodeCannotStart = 1053"
definition exitCodeStatusNotActive :: int where "exitCodeStatusNotActive = 0"
definition exitCodeStatusActive :: int where "exitCodeStatusActive = 1"

definition ErrEmptyUser :: error where "ErrEmptyUser = Error ''empty user''"

text \<open>What the supervisor calls outside itself, on a host state \<open>'w\<close>:
  \<^item> \<open>ExecWithWriter\<close>: the executor running \<open>winsw <verb> <service file>\<close>, given the verb;
    it yields the exit code and the error, and the output it writes to \<open>out\<close> is part of
    the host state;
  \<^item> \<open>userLookup\<close>: \<open>user.Lookup\<close>;
  \<^item> \<open>makeService\<close>: the writing of the service descriptor, which yields whether the file
    is new;
  \<^item> \<open>statServiceFile\<close>: \<open>os.Stat\<close> of the service file;
  \<^item> \<open>removeServiceFile\<close>: \<open>os.Remove\<close> of it.\<close>

record 'w host =
  ExecWithWriter :: "string \<Rightarrow> 'w \<Rightarrow> (int \<times> error option) \<times> 'w"
  userLookup :: "string \<Rightarrow> error option"
  makeService :: "'w \<Rightarrow> (bool \<times> error option) \<times> 'w"
  statServiceFile :: "'w \<Rightarrow> error option"
  removeServiceFile :: "'w \<Rightarrow> error option \<times> 'w"

definition runWinSWCommand :: "'w host \<Rightarrow> string \<Rightarrow> 'w \<Rightarrow> (int \<times> error option) \<times> 'w" where
  "runWinSWCommand pm command w =
     (case ExecWithWriter pm command w of ((r, err), w') \<Rightarrow> ((r, err), w'))"

definition checkUser :: "'w host \<Rightarrow> string \<Rightarrow> error option" where
  "checkUser pm name =
     (if name = [] then Some ErrEmptyUser
      else (case userLookup pm name of
              Some e \<Rightarrow> Some (WithMessage e ''failed to lookup user'')
            | None \<Rightarrow> None))"

definition WinSW_Status :: "'w host \<Rightarrow> 'w \<Rightarrow> (int \<times> error option) \<times> 'w" where
  "WinSW_Status pm w =
     (case statServiceFile pm w of
        Some e \<Rightarrow> ((ErrorResult, None), w)
      | None \<Rightarrow>
          (case runWinSWCommand pm ''status'' w of ((r, err), w') \<Rightarrow>
             (case err of
                Some e \<Rightarrow> ((ErrorResult, Some (WithMessage e ''failed to get daemon status'')), w')
              | None \<Rightarrow>
                  if r = exitCodeStatusNotActive then ((ErrorResult, None), w')
                  else if r = exitCodeStatusActive then ((SuccessResult, None), w')
                  else ((ErrorResult, None), w'))))"

text \<open>\<open>Stop\<close> discards both exit codes; the error of \<open>os.Remove\<close> is logged only.\<close>

definition WinSW_Stop :: "'w host \<Rightarrow> 'w \<Rightarrow> (int \<times> error option) \<times> 'w" where
  "WinSW_Stop pm w =
     (case runWinSWCommand pm ''stop'' w of ((_, err), w1) \<Rightarrow>
        (case err of
           Some e \<Rightarrow> ((ErrorResult, Some (WithMessage e ''failed to run stop command'')), w1)
         | None \<Rightarrow>
             (case runWinSWCommand pm ''uninstall'' w1 of ((_, err), w2) \<Rightarrow>
                (case err of
                   Some e \<Rightarrow>
                     ((ErrorResult, Some (WithMessage e ''failed to run uninstall command'')), w2)
                 | None \<Rightarrow>
                     (case removeServiceFile pm w2 of (_, w3) \<Rightarrow>
                        ((SuccessResult, None), w3))))))"

text \<open>In \<open>tryFixReinstallService\<close> the two errors are logged only; the result tested is the
  one of \<open>install\<close>.\<close>

definition tryFixReinstallService :: "'w host \<Rightarrow> 'w \<Rightarrow> (int \<times> error option) \<times> 'w" where
  "tryFixReinstallService pm w =
     (case runWinSWCommand pm ''uninstall'' w of ((_, _), w1) \<Rightarrow>
        (case runWinSWCommand pm ''install'' w1 of ((r, _), w2) \<Rightarrow>
           if r \<noteq> SuccessResult
           then ((ErrorResult, Some (Error ''failed to install service'')), w2)
           else ((SuccessResult, None), w2)))"

text \<open>The first half of \<open>WinSW.command\<close>: the user check, the descriptor, and \<open>install\<close> or
  \<open>refresh\<close>. \<open>Some\<close> is the error it returns with (always beside \<open>ErrorResult\<close>);
  \<open>None\<close> means the function goes on to run the verb.\<close>

definition command_service :: "'w host \<Rightarrow> string \<Rightarrow> 'w \<Rightarrow> error option \<times> 'w" where
  "command_service pm serverUser w =
     (case checkUser pm serverUser of
        Some e \<Rightarrow> (Some (WithMessage e ''failed to check user''), w)
      | None \<Rightarrow>
          (case makeService pm w of ((createdNewService, err), w1) \<Rightarrow>
             (case err of
                Some e \<Rightarrow> (Some (WithMessage e ''failed to make service''), w1)
              | None \<Rightarrow>
                  if createdNewService then
                    (case runWinSWCommand pm ''install'' w1 of ((r, err), w2) \<Rightarrow>
                       (case err of
                          Some e \<Rightarrow> (Some (WithMessage e ''failed to install service''), w2)
                        | None \<Rightarrow>
                            if r \<noteq> SuccessResult
                            then (Some (Error ''failed to install service''), w2)
                            else (None, w2)))
                  else
                    (case runWinSWCommand pm ''refresh'' w1 of ((r, err), w2) \<Rightarrow>
                       (case err of
                          Some e \<Rightarrow> (Some (WithMessage e ''failed to refresh service''), w2)
                        | None \<Rightarrow>
                            if r \<noteq> SuccessResult then
                              (case runWinSWCommand pm ''install'' w2 of ((r, err), w3) \<Rightarrow>
                                 (case err of
                                    Some e \<Rightarrow>
                                      (Some (WithMessage e ''failed to install service''), w3)
                                  | None \<Rightarrow>
                                      if r \<noteq> SuccessResult
                                      then (Some (Error ''failed to refresh and install service''), w3)
                                      else (None, w3)))
                            else (None, w2))))))"

text \<open>The second half of \<open>WinSW.command\<close>, from the run of the verb on.\<close>

definition command_verb :: "'w host \<Rightarrow> string \<Rightarrow> 'w \<Rightarrow> (int \<times> error option) \<times> 'w" where
  "command_verb pm command w =
     (case runWinSWCommand pm command w of ((r, err), w1) \<Rightarrow>
        (case err of
           Some e \<Rightarrow> ((ErrorResult, Some (WithMessage e ''failed to exec command'')), w1)
         | None \<Rightarrow>
             if r = errorCodeCannotStart \<and> command = ''start'' then
               (case tryFixReinstallService pm w1 of ((_, err), w2) \<Rightarrow>
                  (case err of
                     Some e \<Rightarrow>
                       ((ErrorResult,
                         Some (WithMessage e ''failed to try fix by reinstalling service'')), w2)
                   | None \<Rightarrow>
                       (case runWinSWCommand pm command w2 of ((r, err), w3) \<Rightarrow>
                          (case err of
                             Some e \<Rightarrow>
                               ((ErrorResult, Some (WithMessage e ''failed to exec command'')), w3)
                           | None \<Rightarrow> ((r, None), w3)))))
             else ((r, None), w1)))"

definition WinSW_command ::
  "'w host \<Rightarrow> string \<Rightarrow> string \<Rightarrow> 'w \<Rightarrow> (int \<times> error option) \<times> 'w" where
  "WinSW_command pm serverUser command w =
     (case command_service pm serverUser w of
        (Some e, w1) \<Rightarrow> ((ErrorResult, Some e), w1)
      | (None, w1) \<Rightarrow> command_verb pm command w1)"


definition WinSW_Restart :: "'w host \<Rightarrow> string \<Rightarrow> 'w \<Rightarrow> (int \<times> error option) \<times> 'w" where
  "WinSW_Restart pm serverUser w = WinSW_command pm serverUser ''restart'' w"

section \<open>The server repository (repositories)\<close>

subsection \<open>domain.Server\<close>

type_synonym time = int

text \<open>Modelled from the spec: \<open>domain.Server\<close> and its methods are declared outside the
  sources at hand. The fields are the arguments of \<open>domain.NewServer\<close> in their order, and the
  dirty tracking is a set of named flags (\<open>installationStatus\<close>, \<open>status\<close>), flipped on
  local writes, which \<open>UnmarkModifiedFlag\<close> clears. \<open>Game\<close> and \<open>GameMod\<close> are kept as their
  names; the zero \<open>time.Time\<close> is \<open>0\<close>.\<close>

record Server =
  serverID :: int
  enabled :: bool
  installationStatus :: int
  blocked :: bool
  name :: string
  uuid :: string
  uuidShort :: string
  game :: string
  gameMod :: string
  ip :: string
  connectPort :: int
  queryPort :: int
  rconPort :: int
  rconPassword :: string
  dir :: string
  user :: string
  startCommand :: string
  stopCommand :: string
  forceStopCommand :: string
  restartCommand :: string
  processActive :: bool
  lastStatusCheck :: time
  vars :: "string \<rightharpoonup> string"
  settings :: "string \<rightharpoonup> string"
  updatedAt :: time
  modifiedFlags :: "string set"

definition NewServer ::
  "int \<Rightarrow> bool \<Rightarrow> int \<Rightarrow> bool \<Rightarrow> string \<Rightarrow> string \<Rightarrow> string \<Rightarrow> string \<Rightarrow> string \<Rightarrow> string \<Rightarrow>
   int \<Rightarrow> int \<Rightarrow> int \<Rightarrow> string \<Rightarrow> string \<Rightarrow> string \<Rightarrow> string \<Rightarrow> string \<Rightarrow> string \<Rightarrow> string \<Rightarrow>
   bool \<Rightarrow> time \<Rightarrow> (string \<rightharpoonup> string) \<Rightarrow> (string \<rightharpoonup> string) \<Rightarrow> time \<Rightarrow> Server" where
  "NewServer i en inst bl nm uu us gm gmod addr cp qp rp rpw d u startC stopC forceC restartC
     active lastCheck vs sets upd =
     \<lparr>serverID = i, enabled = en, installationStatus = inst, blocked = bl, name = nm,
      uuid = uu, uuidShort = us, game = gm, gameMod = gmod, ip = addr, connectPort = cp,
      queryPort = qp, rconPort = rp, rconPassword = rpw, dir = d, user = u,
      startCommand = startC, stopCommand = stopC, forceStopCommand = forceC,
      restartCommand = restartC, processActive = active, lastStatusCheck = lastCheck,
      vars = vs, settings = sets, updatedAt = upd, modifiedFlags = {}\<rparr>"

text \<open>\<open>Server.Set\<close> assigns every field but the id, and leaves the flags as they are.\<close>

definition Set ::
  "Server \<Rightarrow> bool \<Rightarrow> int \<Rightarrow> bool \<Rightarrow> string \<Rightarrow> string \<Rightarrow> string \<Rightarrow> string \<Rightarrow> string \<Rightarrow> string \<Rightarrow>
   int \<Rightarrow> int \<Rightarrow> int \<Rightarrow> string \<Rightarrow> string \<Rightarrow> string \<Rightarrow> string \<Rightarrow> string \<Rightarrow> string \<Rightarrow> string \<Rightarrow>
   bool \<Rightarrow> time \<Rightarrow> (string \<rightharpoonup> string) \<Rightarrow> (string \<rightharpoonup> string) \<Rightarrow> time \<Rightarrow> Server" where
  "Set s en inst bl nm uu us gm gmod addr cp qp rp rpw d u startC stopC forceC restartC
     active lastCheck vs sets upd =
     s\<lparr>enabled := en, installationStatus := inst, blocked := bl, name := nm,
       uuid := uu, uuidShort := us, game := gm, gameMod := gmod, ip := addr, connectPort := cp,
       queryPort := qp, rconPort := rp, rconPassword := rpw, dir := d, user := u,
       startCommand := startC, stopCommand := stopC, forceStopCommand := forceC,
       restartCommand := restartC, processActive := active, lastStatusCheck := lastCheck,
       vars := vs, settings := sets, updatedAt := upd\<rparr>"

definition InstallationStatus :: "Server \<Rightarrow> int" where
  "InstallationStatus s = installationStatus s"

definition IsActive :: "Server \<Rightarrow> bool" where
  "IsActive s = processActive s"

definition LastStatusCheck :: "Server \<Rightarrow> time" where
  "LastStatusCheck s = lastStatusCheck s"

definition IsValueModified :: "Server \<Rightarrow> string \<Rightarrow> bool" where
  "IsValueModified s key = (key \<in> modifiedFlags s)"

definition IsModified :: "Server \<Rightarrow> bool" where
  "IsModified s = (modifiedFlags s \<noteq> {})"

definition UnmarkModifiedFlag :: "Server \<Rightarrow> Server" where
  "UnmarkModifiedFlag s = s\<lparr>modifiedFlags := {}\<rparr>"

subsection \<open>The API client\<close>

datatype json = JString string | JOther

record serverStruct =
  Vars :: "string \<rightharpoonup> string"
  ForceStopCommand :: string
  Dir :: string
  LastProcessCheck :: string
  Name :: string
  UUID :: string
  UUIDShort :: string
  RestartCommand :: string
  StopCommand :: string
  IP :: string
  StartCommand :: string
  UpdatedAt :: string
  RconPassword :: string
  User :: string
  Game :: string
  Settings :: "(string \<rightharpoonup> json) list"
  GameMod :: string
  ConnectPort :: int
  ID :: int
  InstallStatus :: int
  RconPort :: int
  QueryPort :: int
  Enabled :: bool
  ProcessActive :: bool
  Blocked :: bool

text \<open>The body of a save request, before \<open>json.Marshal\<close> (which cannot fail on this
  struct); \<open>LastProcessCheck\<close> holds the time that is formatted into it.\<close>

record serverSaveStruct =
  saveInstallationStatus :: "int option"
  saveLastProcessCheck :: "time option"
  saveID :: int
  saveProcessActive :: nat

datatype requestBody = NoBody | SaveBody serverSaveStruct | BulkBody "serverSaveStruct list"

record APIRequest =
  Method :: string
  URL :: string
  Body :: requestBody
  PathParamID :: "int option"

datatype response = RequestFailed error | Response int string

text \<open>What the repository calls outside itself, on an API state \<open>'a\<close>: the request maker,
  the decoding of a server document, and \<open>time.Parse\<close> for the two layouts.\<close>

record 'a client =
  Request :: "APIRequest \<Rightarrow> 'a \<Rightarrow> response \<times> 'a"
  unmarshalServer :: "string \<Rightarrow> error + serverStruct"
  parseDateTime :: "string \<Rightarrow> error + time"
  parseRFC3339 :: "string \<Rightarrow> error + time"

definition StatusOK :: int where "StatusOK = 200"
definition StatusNotFound :: int where "StatusNotFound = 404"

definition NewErrInvalidResponseFromAPI :: "int \<Rightarrow> string \<Rightarrow> error" where
  "NewErrInvalidResponseFromAPI code body = Error (''invalid response from API: '' @ body)"

subsection \<open>The repository state\<close>

definition serverCacheTTL :: time where "serverCacheTTL = 10"

text \<open>Servers are shared by pointer: \<open>objects\<close> is the store of the \<open>Server\<close> objects by
  address and \<open>allocated\<close> the next free address. \<open>innerServers\<close> is the \<open>sync.Map\<close> of
  \<open>apiServerRepo\<close>; \<open>servers\<close> and \<open>lastUpdated\<close> are those of \<open>ServerRepository\<close>;
  \<open>schedulerQueue\<close> is what \<open>limitScheduler.Put\<close> has received.\<close>

record repository =
  objects :: "nat \<Rightarrow> Server"
  allocated :: nat
  innerServers :: "int \<rightharpoonup> nat"
  servers :: "int \<rightharpoonup> nat"
  lastUpdated :: "int \<rightharpoonup> time"
  schedulerQueue :: "nat list"

subsection \<open>apiServerRepo.FindByID\<close>

definition parseLastProcessCheck :: "'a client \<Rightarrow> string \<Rightarrow> error + time" where
  "parseLastProcessCheck api s =
     (if s \<noteq> [] then
        (case parseDateTime api s of
           Inr t \<Rightarrow> Inr t
         | Inl _ \<Rightarrow> (case parseRFC3339 api s of Inr t \<Rightarrow> Inr t | Inl e \<Rightarrow> Inl e))
      else Inr 0)"

definition addSetting :: "(string \<rightharpoonup> string) \<Rightarrow> (string \<rightharpoonup> json) \<Rightarrow> (string \<rightharpoonup> string)" where
  "addSetting sets v =
     (case v ''name'' of
        Some (JString snameString) \<Rightarrow>
          (case v ''value'' of
             Some (JString svalueString) \<Rightarrow> sets(snameString \<mapsto> svalueString)
           | _ \<Rightarrow> sets)
      | _ \<Rightarrow> sets)"

definition apiServerRepo_FindByID ::
  "'a client \<Rightarrow> int \<Rightarrow> repository \<Rightarrow> 'a \<Rightarrow> (nat option \<times> error option) \<times> repository \<times> 'a" where
  "apiServerRepo_FindByID api i st a =
     (case Request api \<lparr>Method = ''GET'', URL = ''/gdaemon_api/servers/{id}'', Body = NoBody,
                         PathParamID = Some i\<rparr> a of
        (RequestFailed e, a') \<Rightarrow> ((None, Some e), st, a')
      | (Response code body, a') \<Rightarrow>
          if code = StatusNotFound then ((None, None), st, a')
          else if code \<noteq> StatusOK then
            ((None, Some (WithMessage (NewErrInvalidResponseFromAPI code body)
               ''[repositories.apiServerRepo] failed find game server'')), st, a')
          else
            (case unmarshalServer api body of
               Inl e \<Rightarrow> ((None, Some e), st, a')
             | Inr srv \<Rightarrow>
                 (case parseLastProcessCheck api (LastProcessCheck srv) of
                    Inl e \<Rightarrow> ((None, Some e), st, a')
                  | Inr lastProcessCheck \<Rightarrow>
                      (case parseRFC3339 api (UpdatedAt srv) of
                         Inl e \<Rightarrow> ((None, Some e), st, a')
                       | Inr upd \<Rightarrow>
                           (let sets = foldl addSetting Map.empty (Settings srv) in
                            case innerServers st (ID srv) of
                              Some item \<Rightarrow>
                                (let server = objects st item;
                                     inst =
                                       (if \<not> IsValueModified server ''installationStatus'' \<and>
                                           InstallationStatus server \<noteq> InstallStatus srv
                                        then InstallStatus srv
                                        else InstallationStatus server);
                                     fresh =
                                       (\<not> IsValueModified server ''status'' \<and>
                                        IsActive server \<noteq> ProcessActive srv);
                                     active = (if fresh then ProcessActive srv else IsActive server);
                                     lastCheck =
                                       (if fresh then lastProcessCheck else LastStatusCheck server)
                                 in ((Some item, None),
                                     st\<lparr>objects := (objects st)(item :=
                                       Set server (Enabled srv) inst (Blocked srv) (Name srv)
                                         (UUID srv) (UUIDShort srv) (Game srv) (GameMod srv)
                                         (IP srv) (ConnectPort srv) (QueryPort srv) (RconPort srv)
                                         (RconPassword srv) (Dir srv) (User srv)
                                         (StartCommand srv) (StopCommand srv)
                                         (ForceStopCommand srv) (RestartCommand srv)
                                         active lastCheck (Vars srv) sets upd)\<rparr>,
                                     a'))
                            | None \<Rightarrow>
                                (let server =
                                       NewServer (ID srv) (Enabled srv) (InstallStatus srv)
                                         (Blocked srv) (Name srv) (UUID srv) (UUIDShort srv)
                                         (Game srv) (GameMod srv) (IP srv) (ConnectPort srv)
                                         (QueryPort srv) (RconPort srv) (RconPassword srv)
                                         (Dir srv) (User srv) (StartCommand srv) (StopCommand srv)
                                         (ForceStopCommand srv) (RestartCommand srv)
                                         (ProcessActive srv) lastProcessCheck (Vars srv) sets upd;
                                     item = allocated st
                                 in ((Some item, None),
                                     st\<lparr>objects := (objects st)(item := server),
                                        allocated := Suc item,
                                        innerServers := (innerServers st)(ID srv \<mapsto> item)\<rparr>,
                                     a')))))))"

subsection \<open>ServerRepository.FindByID\<close>

text \<open>\<open>now\<close> is the clock read by \<open>time.Until\<close>, \<open>now'\<close> the one read by \<open>time.Now()\<close>
  after the fetch. \<open>fetched\<close> is what both fetching branches do with the answer of
  \<open>innerRepo.FindByID\<close>, up to the final \<open>repo.servers.Store\<close>: an error is returned at
  once; a server is stamped in \<open>lastUpdated\<close> and stored; a nil server is returned as it
  is.\<close>

definition fetched ::
  "int \<Rightarrow> time \<Rightarrow> (nat option \<times> error option) \<times> repository \<times> 'a \<Rightarrow>
   (nat option \<times> error option) \<times> repository \<times> 'a" where
  "fetched i now' r =
     (case r of ((server, err), st, a) \<Rightarrow>
        (case err of
           Some e \<Rightarrow> ((None, Some e), st, a)
         | None \<Rightarrow>
             (case server of
                Some p \<Rightarrow>
                  ((Some p, None),
                   st\<lparr>lastUpdated := (lastUpdated st)(i \<mapsto> now'),
                      servers := (servers st)(i \<mapsto> p)\<rparr>, a)
              | None \<Rightarrow> ((None, None), st, a))))"

definition ServerRepository_FindByID ::
  "'a client \<Rightarrow> int \<Rightarrow> time \<Rightarrow> time \<Rightarrow> repository \<Rightarrow> 'a \<Rightarrow>
   (nat option \<times> error option) \<times> repository \<times> 'a" where
  "ServerRepository_FindByID api i now now' st a =
     (case servers st i of
        None \<Rightarrow> fetched i now' (apiServerRepo_FindByID api i st a)
      | Some loadedServer \<Rightarrow>
          if (case lastUpdated st i of
                Some t \<Rightarrow> (t - now) + serverCacheTTL < 0 \<and> \<not> IsModified (objects st loadedServer)
              | None \<Rightarrow> False)
          then fetched i now' (apiServerRepo_FindByID api i st a)
          else ((Some loadedServer, None),
                st\<lparr>servers := (servers st)(i \<mapsto> loadedServer)\<rparr>, a))"

definition ServerRepository_Save :: "nat \<Rightarrow> repository \<Rightarrow> error option \<times> repository" where
  "ServerRepository_Save server st =
     (None, st\<lparr>schedulerQueue := schedulerQueue st @ [server]\<rparr>)"

subsection \<open>apiServerRepo.Save and SaveBulk\<close>

definition saveStructFromServer :: "Server \<Rightarrow> serverSaveStruct" where
  "saveStructFromServer server =
     \<lparr>saveInstallationStatus =
        (if IsValueModified server ''installationStatus''
         then Some (InstallationStatus server) else None),
      saveLastProcessCheck =
        (if LastStatusCheck server \<noteq> 0 \<and> IsValueModified server ''status''
         then Some (LastStatusCheck server) else None),
      saveID = serverID server,
      saveProcessActive =
        (if IsActive server \<and> IsValueModified server ''status'' then 1 else 0)\<rparr>"

definition apiServerRepo_Save ::
  "'a client \<Rightarrow> nat \<Rightarrow> repository \<Rightarrow> 'a \<Rightarrow> error option \<times> repository \<times> 'a" where
  "apiServerRepo_Save api server st a =
     (let serverSaveValues = saveStructFromServer (objects st server);
          st1 = st\<lparr>objects := (objects st)(server := UnmarkModifiedFlag (objects st server))\<rparr>
      in case Request api \<lparr>Method = ''PUT'', URL = ''/gdaemon_api/servers/{id}'',
                            Body = SaveBody serverSaveValues,
                            PathParamID = Some (serverID (objects st1 server))\<rparr> a of
           (RequestFailed e, a') \<Rightarrow>
             (Some (WithMessage e ''[repositories.apiServerRepo] failed to saving server''),
              st1, a')
         | (Response code body, a') \<Rightarrow>
             if code \<noteq> StatusOK then
               (Some (WithMessage (NewErrInvalidResponseFromAPI code body)
                  ''[repositories.apiServerRepo] failed to saving server''), st1, a')
             else (None, st1, a'))"

text \<open>The loop of \<open>SaveBulk\<close>: each server's values are taken, then its flags are cleared.\<close>

fun saveBulkValues ::
  "nat list \<Rightarrow> serverSaveStruct list \<Rightarrow> repository \<Rightarrow> serverSaveStruct list \<times> repository" where
  "saveBulkValues [] serverSaveValues st = (serverSaveValues, st)"
| "saveBulkValues (p # ps) serverSaveValues st =
     saveBulkValues ps (serverSaveValues @ [saveStructFromServer (objects st p)])
       (st\<lparr>objects := (objects st)(p := UnmarkModifiedFlag (objects st p))\<rparr>)"

definition apiServerRepo_SaveBulk ::
  "'a client \<Rightarrow> nat list \<Rightarrow> repository \<Rightarrow> 'a \<Rightarrow> error option \<times> repository \<times> 'a" where
  "apiServerRepo_SaveBulk api ps st a =
     (case saveBulkValues ps [] st of (serverSaveValues, st1) \<Rightarrow>
        (case Request api \<lparr>Method = ''PATCH'', URL = ''/gdaemon_api/servers'',
                            Body = BulkBody serverSaveValues, PathParamID = None\<rparr> a of
           (RequestFailed e, a') \<Rightarrow>
             (Some (WithMessage e
                ''[repositories.apiServerRepo] failed to bulk saving servers''), st1, a')
         | (Response code body, a') \<Rightarrow>
             if code \<noteq> StatusOK then
               (Some (WithMessage (NewErrInvalidResponseFromAPI code body)
                  ''[repositories.apiServerRepo] failed to bulk saving servers''), st1, a')
             else (None, st1, a')))"

section \<open>The task scheduler (gdaemon\_scheduler)\<close>

subsection \<open>domain.GDTask\<close>

datatype GDTaskCommand =
  GDTaskGameServerStart | GDTaskGameServerPause | GDTaskGameServerStop | GDTaskGameServerKill
| GDTaskGameServerRestart | GDTaskGameServerInstall | GDTaskGameServerReinstall
| GDTaskGameServerUpdate | GDTaskGameServerDelete | GDTaskCommandExecute

datatype GDTaskStatus =
  GDTaskStatusWaiting | GDTaskStatusWorking | GDTaskStatusError | GDTaskStatusSuccess
| GDTaskStatusCanceled

text \<open>Modelled from the spec: \<open>domain.GDTask\<close> and its methods are declared outside the
  sources at hand. The fields are the arguments of \<open>domain.NewGDTask\<close>; the server is kept as
  its id. A task is complete in the statuses Success, Error and Canceled; the legal
  transitions are Waiting to Working, Working to Success, Error or Canceled, and Waiting to
  Canceled or Error, and \<open>SetStatus\<close> rejects every other one.\<close>

record GDTask =
  taskID :: int
  runAfterID :: int
  taskServer :: "int option"
  task :: GDTaskCommand
  taskCommand :: string
  status :: GDTaskStatus

definition ErrInvalidStatusTransition :: error where
  "ErrInvalidStatusTransition = Error ''invalid status transition''"

definition ErrInvalidTaskError :: error where
  "ErrInvalidTaskError = Error ''invalid task''"

fun legalTransition :: "GDTaskStatus \<Rightarrow> GDTaskStatus \<Rightarrow> bool" where
  "legalTransition GDTaskStatusWaiting GDTaskStatusWorking = True"
| "legalTransition GDTaskStatusWorking GDTaskStatusSuccess = True"
| "legalTransition GDTaskStatusWorking GDTaskStatusError = True"
| "legalTransition GDTaskStatusWorking GDTaskStatusCanceled = True"
| "legalTransition GDTaskStatusWaiting GDTaskStatusCanceled = True"
| "legalTransition GDTaskStatusWaiting GDTaskStatusError = True"
| "legalTransition _ _ = False"

definition SetStatus :: "GDTask \<Rightarrow> GDTaskStatus \<Rightarrow> error option \<times> GDTask" where
  "SetStatus t s =
     (if legalTransition (status t) s then (None, t\<lparr>status := s\<rparr>)
      else (Some ErrInvalidStatusTransition, t))"

definition IsWaiting :: "GDTask \<Rightarrow> bool" where
  "IsWaiting t = (status t = GDTaskStatusWaiting)"

definition IsWorking :: "GDTask \<Rightarrow> bool" where
  "IsWorking t = (status t = GDTaskStatusWorking)"

definition GDTask_IsComplete :: "GDTask \<Rightarrow> bool" where
  "GDTask_IsComplete t =
     (status t = GDTaskStatusError \<or> status t = GDTaskStatusSuccess \<or>
      status t = GDTaskStatusCanceled)"

fun taskServerCommandMap :: "GDTaskCommand \<Rightarrow> ServerCommand option" where
  "taskServerCommandMap GDTaskGameServerStart = Some Start"
| "taskServerCommandMap GDTaskGameServerPause = Some Pause"
| "taskServerCommandMap GDTaskGameServerStop = Some Stop"
| "taskServerCommandMap GDTaskGameServerKill = Some Kill"
| "taskServerCommandMap GDTaskGameServerRestart = Some Restart"
| "taskServerCommandMap GDTaskGameServerInstall = Some Install"
| "taskServerCommandMap GDTaskGameServerReinstall = Some Reinstall"
| "taskServerCommandMap GDTaskGameServerUpdate = Some Update"
| "taskServerCommandMap GDTaskGameServerDelete = Some Delete"
| "taskServerCommandMap GDTaskCommandExecute = None"

subsection \<open>The manager's state\<close>

text \<open>Tasks and commands are shared by pointer. \<open>tasks\<close> is the store of the task objects by
  address, \<open>commandObjects\<close> the one of the commands in flight (what \<open>IsComplete\<close>, \<open>Result\<close>
  and \<open>ReadOutput\<close> read of them); the goroutines that run the commands change both between
  two steps of the worker.

  What the manager does to the outside is recorded in \<open>trace\<close>, in order: the calls of the
  task repository, with the task as it is when the call is made, the goroutines started by
  a \<open>go\<close> statement, and the notice to the server. The errors of \<open>Save\<close> and \<open>AppendOutput\<close>
  are logged and have no other effect, so their answers are not part of the model.\<close>

datatype goroutine =
  GoAppendTaskOutput nat string
| GoExecuteCommand nat nat
| GoExecuteGameCommand nat "nat option"

datatype event =
  RepositorySave GDTask
| RepositoryAppendOutput GDTask string
| Go goroutine
| NoticeTaskCompleted int

text \<open>\<open>commandsInProgress\<close> is keyed by the task value \<open>*task\<close>; the value is the address of
  the command, or \<open>None\<close> for a nil interface.\<close>

record TaskManager =
  managerLastUpdated :: time
  queue :: "nat list"
  tasks :: "nat \<Rightarrow> GDTask"
  tasksAllocated :: nat
  commandsInProgress :: "GDTask \<rightharpoonup> nat option"
  commandObjects :: "nat \<Rightarrow> commandState"
  commandsAllocated :: nat
  trace :: "event list"

definition updateTimeout :: time where "updateTimeout = 5"

subsection \<open>taskQueue\<close>

definition findByID :: "nat list \<Rightarrow> (nat \<Rightarrow> GDTask) \<Rightarrow> int \<Rightarrow> nat option" where
  "findByID q st i = List.find (\<lambda>p. taskID (st p) = i) q"

fun insert_tasks :: "nat list \<Rightarrow> (nat \<Rightarrow> GDTask) \<Rightarrow> nat list \<Rightarrow> nat list" where
  "insert_tasks q st [] = q"
| "insert_tasks q st (t # ts) =
     (case findByID q st (taskID (st t)) of
        None \<Rightarrow> insert_tasks (q @ [t]) st ts
      | Some existenceTask \<Rightarrow> insert_tasks q st ts)"

definition dequeue :: "nat list \<Rightarrow> nat option \<times> nat list" where
  "dequeue q = (case q of [] \<Rightarrow> (None, q) | p # ps \<Rightarrow> (Some p, ps))"

definition Next :: "nat list \<Rightarrow> (nat \<Rightarrow> GDTask) \<Rightarrow> nat option \<times> nat list" where
  "Next q st =
     (if length q = 0 then (None, q)
      else (case dequeue q of
              (Some p, q') \<Rightarrow> (Some p, insert_tasks q' st [p])
            | (None, q') \<Rightarrow> (None, q')))"

text \<open>\<open>Remove\<close> overwrites the first task of the same id with the last one and drops the
  last slot.\<close>

fun firstIndex :: "('a \<Rightarrow> bool) \<Rightarrow> 'a list \<Rightarrow> nat option" where
  "firstIndex P [] = None"
| "firstIndex P (x # xs) =
     (if P x then Some 0 else (case firstIndex P xs of None \<Rightarrow> None | Some i \<Rightarrow> Some (Suc i)))"

definition Remove :: "nat list \<Rightarrow> (nat \<Rightarrow> GDTask) \<Rightarrow> nat \<Rightarrow> nat list" where
  "Remove q st p =
     (if length q = 0 then q
      else (case firstIndex (\<lambda>x. taskID (st x) = taskID (st p)) q of
              None \<Rightarrow> q
            | Some i \<Rightarrow> butlast (q[i := last q])))"

subsection \<open>TaskManager\<close>

text \<open>The tasks the repository answers with are new objects: they get fresh addresses.\<close>

fun allocate :: "GDTask list \<Rightarrow> TaskManager \<Rightarrow> nat list \<times> TaskManager" where
  "allocate [] m = ([], m)"
| "allocate (t # ts) m =
     (case allocate ts
             (m\<lparr>tasks := (tasks m)(tasksAllocated m := t),
                tasksAllocated := Suc (tasksAllocated m)\<rparr>) of
        (ps, m') \<Rightarrow> (tasksAllocated m # ps, m'))"

definition appendTaskOutput :: "TaskManager \<Rightarrow> nat \<Rightarrow> string \<Rightarrow> TaskManager" where
  "appendTaskOutput m p out =
     (if length out = 0 then m
      else m\<lparr>trace := trace m @ [RepositoryAppendOutput (tasks m p) out]\<rparr>)"

definition repositorySave :: "TaskManager \<Rightarrow> nat \<Rightarrow> TaskManager" where
  "repositorySave m p = m\<lparr>trace := trace m @ [RepositorySave (tasks m p)]\<rparr>"

definition failTask :: "TaskManager \<Rightarrow> nat \<Rightarrow> TaskManager" where
  "failTask m p =
     (case SetStatus (tasks m p) GDTaskStatusError of
        (Some e, _) \<Rightarrow> m
      | (None, t) \<Rightarrow> m\<lparr>tasks := (tasks m)(p := t)\<rparr>)"

text \<open>The body of the loop of \<open>failWorkingTaskAfterRestart\<close>.\<close>

definition failWorkingTask :: "nat \<Rightarrow> TaskManager \<Rightarrow> TaskManager" where
  "failWorkingTask p m =
     (case SetStatus (tasks m p) GDTaskStatusError of
        (Some e, _) \<Rightarrow> m
      | (None, t) \<Rightarrow>
          repositorySave
            (appendTaskOutput (m\<lparr>tasks := (tasks m)(p := t)\<rparr>) p
               ''Working task failed. GameAP Daemon was restarted.'') p)"

text \<open>\<open>answer\<close> is what \<open>repository.FindByStatus(ctx, domain.GDTaskStatusWorking)\<close> returns;
  its error is logged, and the loop runs over the tasks returned.\<close>

definition failWorkingTaskAfterRestart ::
  "TaskManager \<Rightarrow> GDTask list \<times> error option \<Rightarrow> TaskManager" where
  "failWorkingTaskAfterRestart m answer =
     (case answer of (workingTasks, err) \<Rightarrow>
        (case allocate workingTasks m of (ps, m') \<Rightarrow> fold failWorkingTask ps m'))"

text \<open>\<open>now\<close> is the clock at \<open>time.Since\<close>, \<open>now'\<close> the one at \<open>time.Now()\<close>; \<open>answer\<close> is
  what \<open>FindByStatus\<close> returns for the status Waiting, if it is asked.\<close>

definition updateTasksIfNeeded ::
  "TaskManager \<Rightarrow> time \<Rightarrow> time \<Rightarrow> GDTask list \<times> error option \<Rightarrow> error option \<times> TaskManager" where
  "updateTasksIfNeeded m now now' answer =
     (if now - managerLastUpdated m \<le> updateTimeout then (None, m)
      else (case answer of (ts, err) \<Rightarrow>
              (case err of
                 Some e \<Rightarrow> (Some e, m)
               | None \<Rightarrow>
                   (case allocate ts m of (ps, m1) \<Rightarrow>
                      (let m2 = (if length ts > 0
                                 then m1\<lparr>queue := insert_tasks (queue m1) (tasks m1) ps\<rparr>
                                 else m1)
                       in (None, m2\<lparr>managerLastUpdated := now'\<rparr>))))))"

text \<open>\<open>Run\<close>, up to the start of the worker: the recovery of the working tasks, then the
  first update, whose error is logged.\<close>

definition Run_entry ::
  "TaskManager \<Rightarrow> GDTask list \<times> error option \<Rightarrow> time \<Rightarrow> time \<Rightarrow> GDTask list \<times> error option \<Rightarrow>
   TaskManager" where
  "Run_entry m working now now' waiting =
     snd (updateTasksIfNeeded (failWorkingTaskAfterRestart m working) now now' waiting)"

definition shouldTaskWaitForAnotherToComplete :: "TaskManager \<Rightarrow> nat \<Rightarrow> bool" where
  "shouldTaskWaitForAnotherToComplete m p =
     (if runAfterID (tasks m p) > 0 then
        (case findByID (queue m) (tasks m) (runAfterID (tasks m p)) of
           None \<Rightarrow> False
         | Some t \<Rightarrow> if \<not> GDTask_IsComplete (tasks m t) then True else False)
      else False)"

text \<open>\<open>newExecuteCommand\<close> leaves \<open>result\<close> and \<open>complete\<close> at their zero values.\<close>

definition executeCommand :: "TaskManager \<Rightarrow> nat \<Rightarrow> error option \<times> TaskManager" where
  "executeCommand m p =
     (let cmd = commandsAllocated m in
      (None,
       m\<lparr>commandObjects := (commandObjects m)(cmd := \<lparr>complete = False, result = 0, buffer = []\<rparr>),
         commandsAllocated := Suc cmd,
         commandsInProgress := (commandsInProgress m)(tasks m p \<mapsto> Some cmd),
         trace := trace m @ [Go (GoExecuteCommand p cmd)]\<rparr>))"

definition executeGameCommand :: "TaskManager \<Rightarrow> nat \<Rightarrow> error option \<times> TaskManager" where
  "executeGameCommand m p =
     (case taskServerCommandMap (task (tasks m p)) of
        None \<Rightarrow> (Some ErrInvalidTaskError, m)
      | Some cmd \<Rightarrow>
          (case LoadServerCommand cmd of
             None \<Rightarrow>
               (None,
                m\<lparr>commandsInProgress := (commandsInProgress m)(tasks m p \<mapsto> None),
                  trace := trace m @ [Go (GoExecuteGameCommand p None)]\<rparr>)
           | Some _ \<Rightarrow>
               (let cmdFunc = commandsAllocated m in
                (None,
                 m\<lparr>commandObjects := (commandObjects m)(cmdFunc :=
                      \<lparr>complete = complete newBaseCommand, result = result newBaseCommand,
                       buffer = []\<rparr>),
                   commandsAllocated := Suc cmdFunc,
                   commandsInProgress := (commandsInProgress m)(tasks m p \<mapsto> Some cmdFunc),
                   trace := trace m @ [Go (GoExecuteGameCommand p (Some cmdFunc))]\<rparr>))))"

definition executeTask :: "TaskManager \<Rightarrow> nat \<Rightarrow> error option \<times> TaskManager" where
  "executeTask m p =
     (case SetStatus (tasks m p) GDTaskStatusWorking of
        (Some e, _) \<Rightarrow> (Some e, m)
      | (None, t) \<Rightarrow>
          (let m1 = repositorySave (m\<lparr>tasks := (tasks m)(p := t)\<rparr>) p in
           if task (tasks m1 p) = GDTaskCommandExecute then executeCommand m1 p
           else executeGameCommand m1 p))"

text \<open>The type assertion \<open>c.(contracts.CommandResultReader)\<close> panics on a nil interface.
  \<open>cmd.ReadOutput()\<close> is evaluated at the \<open>go\<close> statement and drains the buffer.\<close>

definition proceedTask :: "TaskManager \<Rightarrow> nat \<Rightarrow> (error option \<times> TaskManager) call" where
  "proceedTask m p =
     (case commandsInProgress m (tasks m p) of
        None \<Rightarrow>
          Return (Some (Error
            ''[gdaemon_scheduler.TaskManager] task doesn't exist in working tasks''), m)
      | Some None \<Rightarrow> Panic
      | Some (Some cmd) \<Rightarrow>
          (let out = buffer (commandObjects m cmd);
               reading = (\<lambda>m'. m'\<lparr>commandObjects :=
                            (commandObjects m')(cmd := (commandObjects m' cmd)\<lparr>buffer := []\<rparr>),
                          trace := trace m' @ [Go (GoAppendTaskOutput p out)]\<rparr>)
           in if IsComplete (commandObjects m cmd) then
                (let m1 = m\<lparr>commandsInProgress := (commandsInProgress m)(tasks m p := None)\<rparr> in
                 if Result (commandObjects m1 cmd) = SuccessResult then
                   (case SetStatus (tasks m1 p) GDTaskStatusSuccess of
                      (Some e, _) \<Rightarrow> Return (Some e, m1)
                    | (None, t) \<Rightarrow> Return (None, reading (m1\<lparr>tasks := (tasks m1)(p := t)\<rparr>)))
                 else Return (None, reading (failTask m1 p)))
              else Return (None, reading m)))"

text \<open>The rest of \<open>runNext\<close>, after the check of \<open>shouldTaskWaitForAnotherToComplete\<close>.\<close>

definition runNext_task :: "TaskManager \<Rightarrow> nat \<Rightarrow> TaskManager call" where
  "runNext_task m p =
     (case (if IsWaiting (tasks m p) then Return (executeTask m p)
            else if IsWorking (tasks m p) then proceedTask m p
            else Return (None, m)) of
        Panic \<Rightarrow> Panic
      | Return (err, m1) \<Rightarrow>
          (let m2 = (case err of
                       Some (Error msg) \<Rightarrow>
                         failTask (m1\<lparr>trace := trace m1 @ [Go (GoAppendTaskOutput p msg)]\<rparr>) p
                     | None \<Rightarrow> m1)
           in if GDTask_IsComplete (tasks m2 p) then
                (let m3 = (case taskServer (tasks m2 p) of
                             Some srv \<Rightarrow> m2\<lparr>trace := trace m2 @ [NoticeTaskCompleted srv]\<rparr>
                           | None \<Rightarrow> m2)
                 in Return (repositorySave (m3\<lparr>queue := Remove (queue m3) (tasks m3) p\<rparr>) p))
              else Return m2))"

definition runNext :: "TaskManager \<Rightarrow> TaskManager call" where
  "runNext m =
     (case Next (queue m) (tasks m) of
        (None, _) \<Rightarrow> Return m
      | (Some p, q) \<Rightarrow>
          (let m1 = m\<lparr>queue := q\<rparr> in
           if shouldTaskWaitForAnotherToComplete m1 p then Return m1
           else runNext_task m1 p))"

section \<open>Sequential execution and scripted collaborators\<close>

subsection \<open>Executing sub-commands one after the other\<close>

text \<open>\<open>execute_each\<close> runs every sub-command of a list in list order, whatever the results,
  and collects what each \<open>Execute\<close> returned beside the command as it is afterwards. A
  sub-command \<open>succeeded\<close> when it returned no error and its result is \<open>SuccessResult\<close>.\<close>

fun execute_each ::
  "'w GameServerCommand list \<Rightarrow> 'w \<Rightarrow> (error option \<times> 'w GameServerCommand) list \<times> 'w" where
  "execute_each [] w = ([], w)"
| "execute_each (c # cs) w =
     (case Execute c w of (err, c', w') \<Rightarrow>
        (case execute_each cs w' of (rs, w'') \<Rightarrow> ((err, c') # rs, w'')))"

definition succeeded :: "error option \<times> 'w GameServerCommand \<Rightarrow> bool" where
  "succeeded r = (fst r = None \<and> Result (state (snd r)) = SuccessResult)"

subsection \<open>Scripted sub-commands\<close>

text \<open>A sub-command in the manner of the scripts of the functional tests: run on a host
  whose state is the list of the commands run so far, it adds its name to that list, writes
  its output, completes with its exit code and returns its error.\<close>

definition script :: "string \<Rightarrow> error option \<Rightarrow> int \<Rightarrow> string \<Rightarrow> string list GameServerCommand" where
  "script nm err r out =
     \<lparr>state = \<lparr>complete = False, result = UnknownResult, buffer = []\<rparr>,
      behaviour = (\<lambda>w s. (err, s\<lparr>complete := True, result := r, buffer := buffer s @ out\<rparr>,
                           w @ [nm]))\<rparr>"

text \<open>The same command after its run.\<close>

definition ran :: "string \<Rightarrow> error option \<Rightarrow> int \<Rightarrow> string \<Rightarrow> string list GameServerCommand" where
  "ran nm err r out = (script nm err r out)\<lparr>state := \<lparr>complete = True, result = r, buffer = out\<rparr>\<rparr>"

definition notFound :: error where
  "notFound = Error ''executable file not found''"

definition noRestart :: "string list \<Rightarrow> (int \<times> error option) \<times> string \<times> string list" where
  "noRestart w = ((UnknownResult, Some notFound), [], w)"

text \<open>A restart command over three scripts whose status script cannot be run.\<close>

definition restartExample :: "string list defaultRestartServer" where
  "restartExample = newDefaultRestartServer [] noRestart
     (script ''status'' (Some notFound) (- 1) [])
     (script ''stop'' None 0 ''stop'')
     (script ''start'' None 0 ''start'')"

subsection \<open>A scripted host\<close>

text \<open>A host for the supervisor whose state is the list of the verbs run so far and the
  exit codes still to be handed out, one per run (\<open>0\<close> when none is left). The user exists,
  the service file exists already, and no call returns a Go error.\<close>

definition scriptedHost :: "(string list \<times> int list) host" where
  "scriptedHost =
     \<lparr>ExecWithWriter =
        (\<lambda>verb w. (((case snd w of [] \<Rightarrow> 0 | r # _ \<Rightarrow> r), None), (fst w @ [verb], tl (snd w)))),
      userLookup = (\<lambda>_. None),
      makeService = (\<lambda>w. ((False, None), w)),
      statServiceFile = (\<lambda>_. None),
      removeServiceFile = (\<lambda>w. (None, w))\<rparr>"

subsection \<open>A scripted API\<close>

text \<open>A client whose state is the list of the requests made so far: it answers every
  request with the same response, decodes every body to the same document, and reads every
  time string of the first layout as \<open>90\<close> and every RFC 3339 string as \<open>100\<close>.\<close>

definition scriptedClient :: "response \<Rightarrow> serverStruct \<Rightarrow> APIRequest list client" where
  "scriptedClient resp doc =
     \<lparr>Request = (\<lambda>req made. (resp, made @ [req])),
      unmarshalServer = (\<lambda>_. Inr doc),
      parseDateTime = (\<lambda>_. Inr 90),
      parseRFC3339 = (\<lambda>_. Inr 100)\<rparr>"

text \<open>A server as the daemon holds it (installed, active, last checked at \<open>50\<close>), and the
  document the API has for it (not installed, active, last checked at another time, and
  renamed).\<close>

definition exampleServer :: Server where
  "exampleServer =
     NewServer 1 True 1 False ''local'' ''uuid'' ''uu'' ''cstrike'' ''classic'' ''127.0.0.1''
       27015 27015 27015 ''secret'' ''servers/1'' ''gameap'' ''./run.sh'' ''./stop.sh'' [] []
       True 50 Map.empty Map.empty 10"

definition exampleDocument :: serverStruct where
  "exampleDocument =
     \<lparr>Vars = Map.empty, ForceStopCommand = [], Dir = ''servers/1'', LastProcessCheck = ''later'',
      Name = ''renamed'', UUID = ''uuid'', UUIDShort = ''uu'', RestartCommand = [],
      StopCommand = ''./stop.sh'', IP = ''127.0.0.1'', StartCommand = ''./run.sh'',
      UpdatedAt = ''now'', RconPassword = ''secret'', User = ''gameap'', Game = ''cstrike'',
      Settings = [], GameMod = ''classic'', ConnectPort = 27015, ID = 1, InstallStatus = 0,
      RconPort = 27015, QueryPort = 27015, Enabled = True, ProcessActive = True,
      Blocked = False\<rparr>"

text \<open>A repository that has fetched the server at time \<open>0\<close>, and the same repository after
  both fields have been written locally.\<close>

definition exampleRepository :: repository where
  "exampleRepository =
     \<lparr>objects = (\<lambda>_. exampleServer), allocated = 1, innerServers = [1 \<mapsto> 0],
      servers = [1 \<mapsto> 0], lastUpdated = [1 \<mapsto> 0], schedulerQueue = []\<rparr>"

definition dirtyRepository :: repository where
  "dirtyRepository =
     exampleRepository\<lparr>objects :=
       (\<lambda>_. exampleServer\<lparr>modifiedFlags := {''installationStatus'', ''status''}\<rparr>)\<rparr>"

subsection \<open>Example tasks\<close>

text \<open>Two waiting tasks for one server, the second to run after the first, queued in the
  other order; and a task the daemon left in the status Working.\<close>

definition stopAfterStart :: GDTask where
  "stopAfterStart =
     \<lparr>taskID = 2, runAfterID = 1, taskServer = Some 1, task = GDTaskGameServerStop,
      taskCommand = [], status = GDTaskStatusWaiting\<rparr>"

definition startFirst :: GDTask where
  "startFirst =
     \<lparr>taskID = 1, runAfterID = 0, taskServer = Some 1, task = GDTaskGameServerStart,
      taskCommand = [], status = GDTaskStatusWaiting\<rparr>"

definition exampleManager :: TaskManager where
  "exampleManager =
     \<lparr>managerLastUpdated = 0, queue = [0, 1],
      tasks = (\<lambda>p. if p = 0 then stopAfterStart else startFirst), tasksAllocated = 2,
      commandsInProgress = Map.empty,
      commandObjects = (\<lambda>_. \<lparr>complete = False, result = 0, buffer = []\<rparr>),
      commandsAllocated = 0, trace = []\<rparr>"

definition leftWorking :: "int \<Rightarrow> GDTask" where
  "leftWorking i =
     \<lparr>taskID = i, runAfterID = 0, taskServer = Some 1, task = GDTaskGameServerStart,
      taskCommand = [], status = GDTaskStatusWorking\<rparr>"

subsection \<open>The recovery of one task\<close>

text \<open>What the loop of \<open>failWorkingTaskAfterRestart\<close> sends to the repository for one task
  whose move to the status Error is legal: the output, then the task.\<close>

definition recovery :: "GDTask \<Rightarrow> event list" where
  "recovery t =
     (if legalTransition (status t) GDTaskStatusError
      then [RepositoryAppendOutput (t\<lparr>status := GDTaskStatusError\<rparr>)
              ''Working task failed. GameAP Daemon was restarted.'',
            RepositorySave (t\<lparr>status := GDTaskStatusError\<rparr>)]
      else [])"

subsection \<open>The invariant of the queue\<close>

text \<open>The tasks of the queue have distinct ids, and their addresses are allocated.\<close>

definition queue_invariant :: "TaskManager \<Rightarrow> bool" where
  "queue_invariant m =
     (distinct (map (\<lambda>p. taskID (tasks m p)) (queue m)) \<and>
      (\<forall>p \<in> set (queue m). p < tasksAllocated m))"

subsection \<open>The values of a bulk save\<close>

text \<open>The values that \<open>SaveBulk\<close> sends for a list of servers, in terms of the servers as
  they are before the save: each server is sent as it is then, and a server that is listed
  again is sent as it is once its flags are cleared. \<open>seen\<close> holds the servers listed so
  far.\<close>

fun sentValues :: "nat set \<Rightarrow> (nat \<Rightarrow> Server) \<Rightarrow> nat list \<Rightarrow> serverSaveStruct list" where
  "sentValues seen objs [] = []"
| "sentValues seen objs (p # ps) =
     saveStructFromServer (if p \<in> seen then UnmarkModifiedFlag (objs p) else objs p) #
     sentValues (insert p seen) objs ps"

section \<open>Properties of the commands\<close>

subsection \<open>The loop of commandList\<close>

lemma execute_commands_append:
  "execute_each pre w = (rs, w1) \<Longrightarrow> list_all succeeded rs \<Longrightarrow>
   execute_commands (pre @ rest) w =
     (case execute_commands rest w1 of (x, cs, w2) \<Rightarrow> (x, map snd rs @ cs, w2))"
proof (induction pre arbitrary: w rs)
  case Nil
  then show ?case by (simp split: prod.splits)
next
  case (Cons c pre)
  obtain err c' w' where ex: "Execute c w = (err, c', w')"
    by (cases "Execute c w") auto
  obtain rs' w'' where each: "execute_each pre w' = (rs', w'')"
    by (cases "execute_each pre w'") auto
  from Cons.prems ex each have rs: "rs = (err, c') # rs'" and w1: "w1 = w''"
    by auto
  from Cons.prems(2) rs have hd_ok: "succeeded (err, c')" and tl_ok: "list_all succeeded rs'"
    by simp_all
  from hd_ok have ok: "err = None" "Result (state c') = SuccessResult"
    by (simp_all add: succeeded_def)
  from Cons.IH[OF each[unfolded w1[symmetric]] tl_ok] ex ok rs show ?case
    by (simp split: prod.splits)
qed

lemma read_outputs_concat:
  "fst (read_outputs cs) = concat (map (\<lambda>c. fst (ReadOutput c)) cs)"
  by (induction cs) (auto simp: ReadOutput_def split: prod.splits)

lemma Execute_script [simp]:
  "Execute (script nm err r out) w = (err, ran nm err r out, w @ [nm])"
  by (simp add: Execute_def script_def ran_def)

lemma state_ran [simp]:
  "state (ran nm err r out) = \<lparr>complete = True, result = r, buffer = out\<rparr>"
  by (simp add: ran_def)

lemma state_script [simp]:
  "state (script nm err r out) = \<lparr>complete = False, result = UnknownResult, buffer = []\<rparr>"
  by (simp add: script_def)

text \<open>
  \<^bold>\<open>Claim C5\<close>, as the code has it. For a composite \<open>commandList\<close> none of whose executed
  sub-commands returns a Go error: \<open>Execute\<close> runs the sub-commands in list order; at the
  first sub-command whose result is not \<open>SuccessResult\<close> it completes with that
  sub-command's result, and the later sub-commands and the host are as that sub-command left
  them; if every sub-command yields \<open>SuccessResult\<close> it completes with \<open>SuccessResult\<close>;
  and \<open>ReadOutput\<close> returns the concatenation of the sub-commands' outputs in list order.
\<close>

theorem commandList_Execute_ReadOutput:
  "(execute_each pre w = (rs, w1) \<and> list_all succeeded rs \<and>
    Execute c w1 = (None, c', w2) \<and> Result (state c') \<noteq> SuccessResult \<longrightarrow>
      commandList_Execute (cl\<lparr>commands := pre @ c # post\<rparr>) w =
        (None, cl\<lparr>complete := True, result := Result (state c'),
                  commands := map snd rs @ c' # post\<rparr>, w2)) \<and>
   (execute_each cs w = (rs', w') \<and> list_all succeeded rs' \<longrightarrow>
      commandList_Execute (cl\<lparr>commands := cs\<rparr>) w =
        (None, cl\<lparr>complete := True, result := SuccessResult, commands := map snd rs'\<rparr>, w')) \<and>
   fst (commandList_ReadOutput cl) = concat (map (\<lambda>c. fst (ReadOutput c)) (commands cl))"
proof (intro conjI impI)
  assume "execute_each pre w = (rs, w1) \<and> list_all succeeded rs \<and>
    Execute c w1 = (None, c', w2) \<and> Result (state c') \<noteq> SuccessResult"
  then have "execute_commands (pre @ c # post) w =
      (ReturnResult (Result (state c')), map snd rs @ c' # post, w2)"
    using execute_commands_append[of pre w rs w1 "c # post"] by simp
  then show "commandList_Execute (cl\<lparr>commands := pre @ c # post\<rparr>) w =
        (None, cl\<lparr>complete := True, result := Result (state c'),
                  commands := map snd rs @ c' # post\<rparr>, w2)"
    by (simp add: commandList_Execute_def SetComplete_def SetResult_def)
next
  assume "execute_each cs w = (rs', w') \<and> list_all succeeded rs'"
  then have "execute_commands cs w = (RangeEnd, map snd rs', w')"
    using execute_commands_append[of cs w rs' w' "[]"] by simp
  then show "commandList_Execute (cl\<lparr>commands := cs\<rparr>) w =
        (None, cl\<lparr>complete := True, result := SuccessResult, commands := map snd rs'\<rparr>, w')"
    by (simp add: commandList_Execute_def SetComplete_def SetResult_def)
next
  show "fst (commandList_ReadOutput cl) = concat (map (\<lambda>c. fst (ReadOutput c)) (commands cl))"
    using read_outputs_concat[of "commands cl"]
    by (cases "read_outputs (commands cl)") (simp add: commandList_ReadOutput_def)
qed

text \<open>A list of three scripts whose second one fails with exit code 1, and a list of two
  that succeed.\<close>

theorem commandList_Execute_ReadOutput_witness:
  "commandList_Execute
     (newCommandList [script ''delete'' None 0 ''deleted'', script ''install'' None 1 ''failed'',
                      script ''start'' None 0 ''start'']) [] =
     (None,
      \<lparr>complete = True, result = 1,
       commands = [ran ''delete'' None 0 ''deleted'', ran ''install'' None 1 ''failed'',
                   script ''start'' None 0 ''start'']\<rparr>,
      [''delete'', ''install'']) \<and>
   commandList_Execute
     (newCommandList [script ''delete'' None 0 ''deleted'', script ''start'' None 0 ''start'']) [] =
     (None,
      \<lparr>complete = True, result = 0,
       commands = [ran ''delete'' None 0 ''deleted'', ran ''start'' None 0 ''start'']\<rparr>,
      [''delete'', ''start'']) \<and>
   fst (commandList_ReadOutput
          (newCommandList [ran ''delete'' None 0 ''deleted'', ran ''install'' None 1 ''failed''])) =
     ''deletedfailed''"
proof -
  have h1: "execute_each [script ''delete'' None 0 ''deleted''] [] =
              ([(None, ran ''delete'' None 0 ''deleted'')], [''delete''])"
    by simp
  have h2: "list_all succeeded [(None, ran ''delete'' None 0 ''deleted'')]"
    by (simp add: succeeded_def Result_def SuccessResult_def)
  have h3: "Execute (script ''install'' None 1 ''failed'') [''delete''] =
              (None, ran ''install'' None 1 ''failed'', [''delete'', ''install''])"
    by simp
  have h4: "Result (state (ran ''install'' None 1 ''failed'')) \<noteq> SuccessResult"
    by (simp add: Result_def SuccessResult_def)
  have h5: "execute_each [script ''delete'' None 0 ''deleted'', script ''start'' None 0 ''start''] [] =
              ([(None, ran ''delete'' None 0 ''deleted''), (None, ran ''start'' None 0 ''start'')],
               [''delete'', ''start''])"
    by simp
  have h6: "list_all succeeded
              [(None, ran ''delete'' None 0 ''deleted''), (None, ran ''start'' None 0 ''start'')]"
    by (simp add: succeeded_def Result_def SuccessResult_def)
  from commandList_Execute_ReadOutput
         [where pre = "[script ''delete'' None 0 ''deleted'']" and w = "[]"
            and rs = "[(None, ran ''delete'' None 0 ''deleted'')]" and ?w1.0 = "[''delete'']"
            and c = "script ''install'' None 1 ''failed''"
            and c' = "ran ''install'' None 1 ''failed''" and ?w2.0 = "[''delete'', ''install'']"
            and cl = "newCommandList []" and post = "[script ''start'' None 0 ''start'']"
            and cs = "[script ''delete'' None 0 ''deleted'', script ''start'' None 0 ''start'']"
            and rs' = "[(None, ran ''delete'' None 0 ''deleted''),
                        (None, ran ''start'' None 0 ''start'')]"
            and w' = "[''delete'', ''start'']"]
       h1 h2 h3 h4 h5 h6
  have a: "commandList_Execute
     (newCommandList [script ''delete'' None 0 ''deleted'', script ''install'' None 1 ''failed'',
                      script ''start'' None 0 ''start'']) [] =
     (None,
      \<lparr>complete = True, result = 1,
       commands = [ran ''delete'' None 0 ''deleted'', ran ''install'' None 1 ''failed'',
                   script ''start'' None 0 ''start'']\<rparr>,
      [''delete'', ''install''])"
   and b: "commandList_Execute
     (newCommandList [script ''delete'' None 0 ''deleted'', script ''start'' None 0 ''start'']) [] =
     (None,
      \<lparr>complete = True, result = 0,
       commands = [ran ''delete'' None 0 ''deleted'', ran ''start'' None 0 ''start'']\<rparr>,
      [''delete'', ''start''])"
    by (simp_all add: newCommandList_def Result_def SuccessResult_def)
  from commandList_Execute_ReadOutput
         [where cl = "newCommandList [ran ''delete'' None 0 ''deleted'',
                                      ran ''install'' None 1 ''failed'']"]
  have c: "fst (commandList_ReadOutput
          (newCommandList [ran ''delete'' None 0 ''deleted'', ran ''install'' None 1 ''failed''])) =
     ''deletedfailed''"
    by (simp add: newCommandList_def ReadOutput_def)
  from a b c show ?thesis by simp
qed

text \<open>Claim C5 as it is stated fails where a sub-command returns a Go error: the only
  sub-command ends with the result \<open>- 1\<close>, which is not \<open>SuccessResult\<close>, and the composite
  is not complete.\<close>

theorem commandList_completes_counterexample:
  "Result (state (fst (snd (Execute (script ''delete'' (Some notFound) (- 1) []) [])))) \<noteq>
     SuccessResult \<and>
   \<not> IsComplete (fst (snd (commandList_Execute
        (newCommandList [script ''delete'' (Some notFound) (- 1) []]) [])))"
  by (simp add: commandList_Execute_def newCommandList_def newBaseCommand_def IsComplete_def
      Result_def SuccessResult_def)

text \<open>
  \<^bold>\<open>Claim C10.\<close> For every composite \<open>commandList\<close>: if a sub-command's \<open>Execute\<close> returns a
  Go error (it is run, the sub-commands before it having succeeded), the composite returns
  that error at once; the later sub-commands are not executed (they and the host are as the
  failing sub-command left them); and whenever the composite returns an error it is left as
  complete as it was and with the result it had: after \<open>newCommandList\<close>, \<open>IsComplete()\<close>
  remains false and \<open>Result()\<close> remains \<open>UnknownResult\<close>.
\<close>

theorem commandList_Execute_error:
  "(execute_each pre w = (rs, w1) \<and> list_all succeeded rs \<and>
    Execute c w1 = (Some e, c', w2) \<longrightarrow>
      commandList_Execute (cl\<lparr>commands := pre @ c # post\<rparr>) w =
        (Some e, cl\<lparr>commands := map snd rs @ c' # post\<rparr>, w2)) \<and>
   (commandList_Execute cl w = (Some e, cl', w') \<longrightarrow>
      IsComplete cl' = IsComplete cl \<and> Result cl' = Result cl) \<and>
   \<not> IsComplete (newCommandList cs) \<and> Result (newCommandList cs) = UnknownResult"
proof (intro conjI impI)
  assume "execute_each pre w = (rs, w1) \<and> list_all succeeded rs \<and>
    Execute c w1 = (Some e, c', w2)"
  then show "commandList_Execute (cl\<lparr>commands := pre @ c # post\<rparr>) w =
        (Some e, cl\<lparr>commands := map snd rs @ c' # post\<rparr>, w2)"
    using execute_commands_append[of pre w rs w1 "c # post"]
    by (simp add: commandList_Execute_def)
next
  assume a: "commandList_Execute cl w = (Some e, cl', w')"
  obtain x cs' w'' where ex: "execute_commands (commands cl) w = (x, cs', w'')"
    by (cases "execute_commands (commands cl) w") auto
  with a have cl': "cl' = cl\<lparr>commands := cs'\<rparr>"
    by (cases x) (simp_all add: commandList_Execute_def)
  show "IsComplete cl' = IsComplete cl" by (simp add: cl' IsComplete_def)
  show "Result cl' = Result cl" by (simp add: cl' Result_def)
next
  show "\<not> IsComplete (newCommandList cs)"
    by (simp add: newCommandList_def newBaseCommand_def IsComplete_def)
  show "Result (newCommandList cs) = UnknownResult"
    by (simp add: newCommandList_def newBaseCommand_def Result_def)
qed

theorem commandList_Execute_error_witness:
  "commandList_Execute
     (newCommandList [script ''delete'' None 0 ''deleted'',
                      script ''install'' (Some notFound) (- 1) [],
                      script ''start'' None 0 ''start'']) [] =
     (Some notFound,
      newCommandList [ran ''delete'' None 0 ''deleted'', ran ''install'' (Some notFound) (- 1) [],
                      script ''start'' None 0 ''start''],
      [''delete'', ''install'']) \<and>
   \<not> IsComplete (newCommandList [ran ''delete'' None 0 ''deleted'',
                      ran ''install'' (Some notFound) (- 1) [],
                      script ''start'' None 0 ''start'']) \<and>
   Result (newCommandList [ran ''delete'' None 0 ''deleted'',
                      ran ''install'' (Some notFound) (- 1) [],
                      script ''start'' None 0 ''start'']) = UnknownResult"
proof -
  have h: "execute_each [script ''delete'' None 0 ''deleted''] [] =
              ([(None, ran ''delete'' None 0 ''deleted'')], [''delete'']) \<and>
           list_all succeeded [(None, ran ''delete'' None 0 ''deleted'')] \<and>
           Execute (script ''install'' (Some notFound) (- 1) []) [''delete''] =
              (Some notFound, ran ''install'' (Some notFound) (- 1) [], [''delete'', ''install''])"
    by (simp add: succeeded_def Result_def SuccessResult_def)
  note th = commandList_Execute_error
    [where pre = "[script ''delete'' None 0 ''deleted'']" and w = "[]"
       and rs = "[(None, ran ''delete'' None 0 ''deleted'')]" and ?w1.0 = "[''delete'']"
       and c = "script ''install'' (Some notFound) (- 1) []" and e = notFound
       and c' = "ran ''install'' (Some notFound) (- 1) []" and ?w2.0 = "[''delete'', ''install'']"
       and post = "[script ''start'' None 0 ''start'']"
       and cl = "newCommandList []"
       and cs = "[ran ''delete'' None 0 ''deleted'', ran ''install'' (Some notFound) (- 1) [],
                  script ''start'' None 0 ''start'']"]
  from th[THEN conjunct1, THEN mp, OF h]
  have a: "commandList_Execute
     (newCommandList [script ''delete'' None 0 ''deleted'',
                      script ''install'' (Some notFound) (- 1) [],
                      script ''start'' None 0 ''start'']) [] =
     (Some notFound,
      newCommandList [ran ''delete'' None 0 ''deleted'', ran ''install'' (Some notFound) (- 1) [],
                      script ''start'' None 0 ''start''],
      [''delete'', ''install''])"
    by (simp add: newCommandList_def)
  note th2 = commandList_Execute_error
    [where cl = "newCommandList [script ''delete'' None 0 ''deleted'',
                      script ''install'' (Some notFound) (- 1) [],
                      script ''start'' None 0 ''start'']"
       and w = "[]" and e = notFound
       and cl' = "newCommandList [ran ''delete'' None 0 ''deleted'',
                      ran ''install'' (Some notFound) (- 1) [],
                      script ''start'' None 0 ''start'']"
       and w' = "[''delete'', ''install'']"
       and cs = "[script ''delete'' None 0 ''deleted'',
                      script ''install'' (Some notFound) (- 1) [],
                      script ''start'' None 0 ''start'']"]
  from th2[THEN conjunct2, THEN conjunct1, THEN mp, OF a] th2[THEN conjunct2, THEN conjunct2]
  have b: "\<not> IsComplete (newCommandList [ran ''delete'' None 0 ''deleted'',
                      ran ''install'' (Some notFound) (- 1) [],
                      script ''start'' None 0 ''start'']) \<and>
   Result (newCommandList [ran ''delete'' None 0 ''deleted'',
                      ran ''install'' (Some notFound) (- 1) [],
                      script ''start'' None 0 ''start'']) = UnknownResult"
    by simp
  from a b show ?thesis by simp
qed

subsection \<open>Restart by status, stop and start\<close>

lemma scriptsRestart_Execute:
  "scriptsRestart (fst (snd (defaultRestartServer_Execute cmd w))) = scriptsRestart cmd"
  by (simp add: defaultRestartServer_Execute_def restartViaStopStart_def
      restartViaStopStart_start_def SetComplete_def SetResult_def Let_def
      split: prod.splits option.splits)

text \<open>
  \<^bold>\<open>Claim C1\<close>, as the code has it. For every Restart command executed when
  \<open>cfg.Scripts.Restart\<close> is empty and no sub-command it executes returns a Go error: it
  first executes the Status sub-command; if Status reports active it executes Stop, and if
  Stop's result is not \<open>SuccessResult\<close> it completes with result equal to Stop's result
  without executing Start (the Start sub-command and the host are as Stop left them);
  otherwise it executes Start and completes with result equal to Start's result; and
  \<open>ReadOutput\<close> afterwards returns exactly the concatenation of the status output, the stop
  output and the start output, in that order.
\<close>

theorem defaultRestartServer_Execute_ReadOutput:
  assumes "scriptsRestart cmd = []"
    and "Execute (statusServer cmd) w = (None, st, w1)"
  shows
    "(Result (state st) = SuccessResult \<and> Execute (stopServer cmd) w1 = (None, sp, w2) \<and>
      Result (state sp) \<noteq> SuccessResult \<longrightarrow>
        defaultRestartServer_Execute cmd w =
          (None, cmd\<lparr>complete := True, result := Result (state sp), outputBuf := Some [],
                    statusServer := st, stopServer := sp\<rparr>, w2)) \<and>
     (Result (state st) = SuccessResult \<and> Execute (stopServer cmd) w1 = (None, sp, w2) \<and>
      Result (state sp) = SuccessResult \<and> Execute (startServer cmd) w2 = (None, sa, w3) \<longrightarrow>
        defaultRestartServer_Execute cmd w =
          (None, cmd\<lparr>complete := True, result := Result (state sa), outputBuf := Some [],
                    statusServer := st, stopServer := sp, startServer := sa\<rparr>, w3)) \<and>
     (Result (state st) \<noteq> SuccessResult \<and> Execute (startServer cmd) w1 = (None, sa, w2) \<longrightarrow>
        defaultRestartServer_Execute cmd w =
          (None, cmd\<lparr>complete := True, result := Result (state sa), outputBuf := Some [],
                    statusServer := st, startServer := sa\<rparr>, w2)) \<and>
     fst (defaultRestartServer_ReadOutput (fst (snd (defaultRestartServer_Execute cmd w)))) =
       Return (fst (ReadOutput (statusServer (fst (snd (defaultRestartServer_Execute cmd w))))) @
               fst (ReadOutput (stopServer (fst (snd (defaultRestartServer_Execute cmd w))))) @
               fst (ReadOutput (startServer (fst (snd (defaultRestartServer_Execute cmd w))))))"
proof (intro conjI impI)
  show "fst (defaultRestartServer_ReadOutput (fst (snd (defaultRestartServer_Execute cmd w)))) =
       Return (fst (ReadOutput (statusServer (fst (snd (defaultRestartServer_Execute cmd w))))) @
               fst (ReadOutput (stopServer (fst (snd (defaultRestartServer_Execute cmd w))))) @
               fst (ReadOutput (startServer (fst (snd (defaultRestartServer_Execute cmd w))))))"
    using scriptsRestart_Execute[of cmd w] assms(1)
    by (simp add: defaultRestartServer_ReadOutput_def ReadOutput_def)
qed (use assms in \<open>simp_all add: defaultRestartServer_Execute_def restartViaStopStart_def
      restartViaStopStart_start_def SetComplete_def SetResult_def\<close>)

text \<open>The three runs of the functional tests: the stop script fails; all succeed; the
  server is down.\<close>

theorem defaultRestartServer_Execute_ReadOutput_witness:
  "defaultRestartServer_Execute
     (newDefaultRestartServer [] noRestart (script ''status'' None 0 ''status '')
        (script ''stop'' None 1 ''stop failed '') (script ''start'' None 0 ''start '')) [] =
     (None,
      \<lparr>complete = True, result = 1, outputBuf = Some [], scriptsRestart = [],
       processManagerRestart = noRestart,
       statusServer = ran ''status'' None 0 ''status '',
       stopServer = ran ''stop'' None 1 ''stop failed '',
       startServer = script ''start'' None 0 ''start ''\<rparr>,
      [''status'', ''stop'']) \<and>
   defaultRestartServer_Execute
     (newDefaultRestartServer [] noRestart (script ''status'' None 0 ''status '')
        (script ''stop'' None 0 ''stop '') (script ''start'' None 0 ''start '')) [] =
     (None,
      \<lparr>complete = True, result = 0, outputBuf = Some [], scriptsRestart = [],
       processManagerRestart = noRestart,
       statusServer = ran ''status'' None 0 ''status '',
       stopServer = ran ''stop'' None 0 ''stop '',
       startServer = ran ''start'' None 0 ''start ''\<rparr>,
      [''status'', ''stop'', ''start'']) \<and>
   defaultRestartServer_Execute
     (newDefaultRestartServer [] noRestart (script ''status'' None 1 ''status failed '')
        (script ''stop'' None 0 ''stop '') (script ''start'' None 0 ''start '')) [] =
     (None,
      \<lparr>complete = True, result = 0, outputBuf = Some [], scriptsRestart = [],
       processManagerRestart = noRestart,
       statusServer = ran ''status'' None 1 ''status failed '',
       stopServer = script ''stop'' None 0 ''stop '',
       startServer = ran ''start'' None 0 ''start ''\<rparr>,
      [''status'', ''start'']) \<and>
   fst (defaultRestartServer_ReadOutput (fst (snd (defaultRestartServer_Execute
     (newDefaultRestartServer [] noRestart (script ''status'' None 1 ''status failed '')
        (script ''stop'' None 0 ''stop '') (script ''start'' None 0 ''start '')) [])))) =
     Return ''status failed start ''"
proof -
  have a: "defaultRestartServer_Execute
     (newDefaultRestartServer [] noRestart (script ''status'' None 0 ''status '')
        (script ''stop'' None 1 ''stop failed '') (script ''start'' None 0 ''start '')) [] =
     (None,
      \<lparr>complete = True, result = 1, outputBuf = Some [], scriptsRestart = [],
       processManagerRestart = noRestart,
       statusServer = ran ''status'' None 0 ''status '',
       stopServer = ran ''stop'' None 1 ''stop failed '',
       startServer = script ''start'' None 0 ''start ''\<rparr>,
      [''status'', ''stop''])"
    using defaultRestartServer_Execute_ReadOutput
      [where cmd = "newDefaultRestartServer [] noRestart (script ''status'' None 0 ''status '')
                      (script ''stop'' None 1 ''stop failed '') (script ''start'' None 0 ''start '')"
         and w = "[]" and st = "ran ''status'' None 0 ''status ''" and ?w1.0 = "[''status'']"
         and sp = "ran ''stop'' None 1 ''stop failed ''" and ?w2.0 = "[''status'', ''stop'']"]
    by (simp add: newDefaultRestartServer_def Result_def SuccessResult_def newBaseCommand_def)
  have b: "defaultRestartServer_Execute
     (newDefaultRestartServer [] noRestart (script ''status'' None 0 ''status '')
        (script ''stop'' None 0 ''stop '') (script ''start'' None 0 ''start '')) [] =
     (None,
      \<lparr>complete = True, result = 0, outputBuf = Some [], scriptsRestart = [],
       processManagerRestart = noRestart,
       statusServer = ran ''status'' None 0 ''status '',
       stopServer = ran ''stop'' None 0 ''stop '',
       startServer = ran ''start'' None 0 ''start ''\<rparr>,
      [''status'', ''stop'', ''start''])"
    using defaultRestartServer_Execute_ReadOutput
      [where cmd = "newDefaultRestartServer [] noRestart (script ''status'' None 0 ''status '')
                      (script ''stop'' None 0 ''stop '') (script ''start'' None 0 ''start '')"
         and w = "[]" and st = "ran ''status'' None 0 ''status ''" and ?w1.0 = "[''status'']"
         and sp = "ran ''stop'' None 0 ''stop ''" and ?w2.0 = "[''status'', ''stop'']"
         and sa = "ran ''start'' None 0 ''start ''" and ?w3.0 = "[''status'', ''stop'', ''start'']"]
    by (simp add: newDefaultRestartServer_def Result_def SuccessResult_def newBaseCommand_def)
  have c: "defaultRestartServer_Execute
     (newDefaultRestartServer [] noRestart (script ''status'' None 1 ''status failed '')
        (script ''stop'' None 0 ''stop '') (script ''start'' None 0 ''start '')) [] =
     (None,
      \<lparr>complete = True, result = 0, outputBuf = Some [], scriptsRestart = [],
       processManagerRestart = noRestart,
       statusServer = ran ''status'' None 1 ''status failed '',
       stopServer = script ''stop'' None 0 ''stop '',
       startServer = ran ''start'' None 0 ''start ''\<rparr>,
      [''status'', ''start''])"
    using defaultRestartServer_Execute_ReadOutput
      [where cmd = "newDefaultRestartServer [] noRestart (script ''status'' None 1 ''status failed '')
                      (script ''stop'' None 0 ''stop '') (script ''start'' None 0 ''start '')"
         and w = "[]" and st = "ran ''status'' None 1 ''status failed ''" and ?w1.0 = "[''status'']"
         and sa = "ran ''start'' None 0 ''start ''" and ?w2.0 = "[''status'', ''start'']"]
    by (simp add: newDefaultRestartServer_def Result_def SuccessResult_def newBaseCommand_def)
  have d: "fst (defaultRestartServer_ReadOutput (fst (snd (defaultRestartServer_Execute
     (newDefaultRestartServer [] noRestart (script ''status'' None 1 ''status failed '')
        (script ''stop'' None 0 ''stop '') (script ''start'' None 0 ''start '')) [])))) =
     Return ''status failed start ''"
    unfolding c by (simp add: defaultRestartServer_ReadOutput_def ReadOutput_def)
  from a b c d show ?thesis by simp
qed

text \<open>Claim C1 as it is stated fails where a sub-command returns a Go error: the status
  script cannot be run, so Status does not report active, and yet Start is not executed:
  the host has seen the status command only.\<close>

theorem restart_without_start_counterexample:
  "Result (state (fst (snd (Execute (statusServer restartExample) [])))) \<noteq> SuccessResult \<and>
   fst (defaultRestartServer_Execute restartExample []) =
     Some (Error ''failed to check server status: executable file not found'') \<and>
   snd (snd (defaultRestartServer_Execute restartExample [])) = [''status''] \<and>
   startServer (fst (snd (defaultRestartServer_Execute restartExample []))) =
     script ''start'' None 0 ''start''"
  by (simp add: restartExample_def newDefaultRestartServer_def defaultRestartServer_Execute_def
      restartViaStopStart_def SetComplete_def Result_def SuccessResult_def notFound_def)

subsection \<open>Pause and Unpause\<close>

text \<open>
  \<^bold>\<open>Claim C3\<close> says that for both verbs Pause and Unpause \<open>LoadServerCommand\<close> returns a
  command that is not nil, and whose \<open>Execute\<close> writes \<open>not implemented command\<close>, sets
  \<open>IsComplete\<close> and yields \<open>ErrorResult\<close>. The code returns nil for Pause; for Unpause it
  returns the command, whose \<open>Execute\<close> sets complete and the result \<open>ErrorResult\<close> and
  then panics on the nil output, writing nothing.
\<close>

theorem LoadServerCommand_Pause_Unpause:
  "LoadServerCommand Pause = None \<and>
   LoadServerCommand Unpause = Some (NilCommand newNotImplementedCommand) \<and>
   nilCommand_Execute newNotImplementedCommand =
     (Panic, newNotImplementedCommand\<lparr>complete := True, result := ErrorResult\<rparr>)"
  by (simp add: nilCommand_Execute_def newNotImplementedCommand_def SetComplete_def SetResult_def)

section \<open>Properties of the service-manager supervisor\<close>

lemma runWinSWCommand_scriptedHost [simp]:
  "runWinSWCommand scriptedHost verb (calls, r # codes) = ((r, None), (calls @ [verb], codes))"
  "runWinSWCommand scriptedHost verb (calls, []) = ((0, None), (calls @ [verb], []))"
  by (simp_all add: runWinSWCommand_def scriptedHost_def)

lemma scriptedHost_simps [simp]:
  "userLookup scriptedHost n = None"
  "makeService scriptedHost w = ((False, None), w)"
  "statServiceFile scriptedHost w = None"
  "removeServiceFile scriptedHost w = (None, w)"
  by (simp_all add: scriptedHost_def)

lemma command_service_scriptedHost [simp]:
  "u \<noteq> [] \<Longrightarrow>
   command_service scriptedHost u (calls, 0 # codes) = (None, (calls @ [''refresh''], codes))"
  by (simp add: command_service_def checkUser_def SuccessResult_def)


text \<open>
  \<^bold>\<open>Claim C7\<close>, as the code has it, for the service-manager variant (the only one in the
  sources at hand) and runs of the executor that return no Go error: \<open>Status\<close> returns
  Success for the exit code 1 and Error for every other exit code, 0 included; \<open>Start\<close> and
  \<open>Restart\<close> return the exit code of the verb as the result, unchanged, when no reinstall is
  tried (so 0 is Success, and a code that is not 0 is not Success); \<open>Stop\<close> returns Success
  whatever the exit codes of \<open>stop\<close> and \<open>uninstall\<close> are.
\<close>

theorem WinSW_results:
  "(statServiceFile pm w = None \<and> runWinSWCommand pm ''status'' w = ((r, None), w1) \<longrightarrow>
      WinSW_Status pm w = ((if r = 1 then SuccessResult else ErrorResult, None), w1)) \<and>
   (command_service pm u w = (None, w1) \<and> runWinSWCommand pm verb w1 = ((r, None), w2) \<and>
    \<not> (r = errorCodeCannotStart \<and> verb = ''start'') \<longrightarrow>
      WinSW_command pm u verb w = ((r, None), w2)) \<and>
   (runWinSWCommand pm ''stop'' w = ((r1, None), w1) \<and>
    runWinSWCommand pm ''uninstall'' w1 = ((r2, None), w2) \<longrightarrow>
      fst (WinSW_Stop pm w) = (SuccessResult, None))"
  by (auto simp add: WinSW_Status_def WinSW_command_def command_verb_def WinSW_Stop_def
      exitCodeStatusNotActive_def exitCodeStatusActive_def split: prod.splits)

theorem WinSW_results_witness:
  "WinSW_Status scriptedHost ([], [5]) = ((ErrorResult, None), ([''status''], [])) \<and>
   WinSW_command scriptedHost ''gameap'' ''restart'' ([], [0, 5]) =
     ((5, None), ([''refresh'', ''restart''], [])) \<and>
   fst (WinSW_Stop scriptedHost ([], [3, 4])) = (SuccessResult, None)"
proof -
  have s: "statServiceFile scriptedHost ([], [5 :: int]) = None"
    by simp
  from WinSW_results[where pm = scriptedHost and w = "([], [5])" and r = 5
      and ?w1.0 = "([''status''], [])"] s
  have a: "WinSW_Status scriptedHost ([], [5]) = ((ErrorResult, None), ([''status''], []))"
    by simp
  from WinSW_results[where pm = scriptedHost and w = "([], [0, 5])" and r = 5 and u = "''gameap''"
      and ?w1.0 = "([''refresh''], [5])" and verb = "''restart''"
      and ?w2.0 = "([''refresh'', ''restart''], [])"]
  have b: "WinSW_command scriptedHost ''gameap'' ''restart'' ([], [0, 5]) =
     ((5, None), ([''refresh'', ''restart''], []))"
    by simp
  from WinSW_results[where pm = scriptedHost and w = "([], [3, 4])" and ?r1.0 = 3 and ?r2.0 = 4
      and ?w1.0 = "([''stop''], [4])" and ?w2.0 = "([''stop'', ''uninstall''], [])"]
  have c: "fst (WinSW_Stop scriptedHost ([], [3, 4])) = (SuccessResult, None)"
    by simp
  from a b c show ?thesis by simp
qed

text \<open>Claim C7 as it is stated fails for \<open>Status\<close>: the exit code 0 gives Error and the
  exit code 1 gives Success.\<close>

theorem WinSW_Status_counterexample:
  "WinSW_Status scriptedHost ([], [0]) = ((ErrorResult, None), ([''status''], [])) \<and>
   WinSW_Status scriptedHost ([], [1]) = ((SuccessResult, None), ([''status''], []))"
  by (simp add: WinSW_Status_def exitCodeStatusNotActive_def exitCodeStatusActive_def)




section \<open>Properties of the server repository\<close>

subsection \<open>The dirty flags on a save\<close>

lemma saveBulkValues_objects:
  "objects (snd (saveBulkValues ps vs st)) q =
     (if q \<in> set ps then UnmarkModifiedFlag (objects st q) else objects st q)"
proof (induction ps arbitrary: vs st)
  case Nil
  show ?case by simp
next
  case (Cons p ps)
  show ?case
    by (simp add: Cons.IH UnmarkModifiedFlag_def)
qed

lemma apiServerRepo_Save_objects:
  "objects (fst (snd (apiServerRepo_Save api p st a))) =
     (objects st)(p := UnmarkModifiedFlag (objects st p))"
  by (simp add: apiServerRepo_Save_def Let_def split: prod.splits response.splits)

lemma apiServerRepo_SaveBulk_objects:
  "objects (fst (snd (apiServerRepo_SaveBulk api ps st a))) = objects (snd (saveBulkValues ps [] st))"
  by (simp add: apiServerRepo_SaveBulk_def split: prod.splits response.splits)

lemma scriptedClient_simps [simp]:
  "Request (scriptedClient resp doc) req made = (resp, made @ [req])"
  "unmarshalServer (scriptedClient resp doc) body = Inr doc"
  "parseDateTime (scriptedClient resp doc) s = Inr 90"
  "parseRFC3339 (scriptedClient resp doc) s = Inr 100"
  by (simp_all add: scriptedClient_def)

lemma saveBulkValues_values:
  "\<forall>q. objects st' q = (if q \<in> seen then UnmarkModifiedFlag (objects st q) else objects st q) \<Longrightarrow>
   fst (saveBulkValues ps vs st') = vs @ sentValues seen (objects st) ps"
proof (induction ps arbitrary: vs st' seen)
  case Nil
  show ?case by simp
next
  case (Cons p ps)
  have "\<forall>q. objects (st'\<lparr>objects := (objects st')(p := UnmarkModifiedFlag (objects st' p))\<rparr>) q =
          (if q \<in> insert p seen then UnmarkModifiedFlag (objects st q) else objects st q)"
    using Cons.prems by (simp add: UnmarkModifiedFlag_def)
  from Cons.IH[OF this] Cons.prems show ?case by simp
qed

lemma saveBulkValues_rest:
  "snd (saveBulkValues ps vs st) = st\<lparr>objects := objects (snd (saveBulkValues ps vs st))\<rparr>"
proof (induction ps arbitrary: vs st)
  case Nil
  show ?case by simp
next
  case (Cons p ps)
  from Cons.IH[of "vs @ [saveStructFromServer (objects st p)]"
      "st\<lparr>objects := (objects st)(p := UnmarkModifiedFlag (objects st p))\<rparr>"]
  show ?case by simp
qed

lemma saveBulkValues_state:
  "snd (saveBulkValues ps vs st) =
     st\<lparr>objects := (\<lambda>q. if q \<in> set ps then UnmarkModifiedFlag (objects st q) else objects st q)\<rparr>"
proof -
  have "objects (snd (saveBulkValues ps vs st)) =
        (\<lambda>q. if q \<in> set ps then UnmarkModifiedFlag (objects st q) else objects st q)"
    by (rule ext) (simp add: saveBulkValues_objects)
  with saveBulkValues_rest[of ps vs st] show ?thesis by simp
qed

text \<open>
  \<^bold>\<open>Claim C4\<close>, as the code has it. For every server save (single \<open>Save\<close> and \<open>SaveBulk\<close>):
  the server's dirty flags for \<open>installationStatus\<close> and \<open>status\<close> are cleared
  (\<open>UnmarkModifiedFlag\<close>) as soon as the values to send have been taken, before the request
  is made, and so whatever the outcome of the flush: the one request that is made carries
  the values of the server as it was with its flags (in a bulk save, a server listed again
  is sent as it is after the clearing); the repository that is left is the one before the
  save with the flags of the saved servers cleared, also when the request fails or returns
  a status that is not 200; and the error returned is the one of the request.
\<close>

theorem Save_clears_flags:
  "\<not> IsModified (objects (fst (snd (apiServerRepo_Save api p st a))) p) \<and>
   \<not> IsValueModified (objects (fst (snd (apiServerRepo_Save api p st a))) p)
       ''installationStatus'' \<and>
   \<not> IsValueModified (objects (fst (snd (apiServerRepo_Save api p st a))) p) ''status'' \<and>
   (\<forall>q \<in> set ps.
      \<not> IsModified (objects (fst (snd (apiServerRepo_SaveBulk api ps st a))) q) \<and>
      \<not> IsValueModified (objects (fst (snd (apiServerRepo_SaveBulk api ps st a))) q)
          ''installationStatus'' \<and>
      \<not> IsValueModified (objects (fst (snd (apiServerRepo_SaveBulk api ps st a))) q) ''status'') \<and>
   apiServerRepo_Save api p st a =
     (case Request api
             \<lparr>Method = ''PUT'', URL = ''/gdaemon_api/servers/{id}'',
              Body = SaveBody (saveStructFromServer (objects st p)),
              PathParamID = Some (serverID (objects st p))\<rparr> a of
        (resp, a') \<Rightarrow>
          (case resp of
             RequestFailed e \<Rightarrow>
               Some (WithMessage e ''[repositories.apiServerRepo] failed to saving server'')
           | Response code body \<Rightarrow>
               if code \<noteq> StatusOK
               then Some (WithMessage (NewErrInvalidResponseFromAPI code body)
                      ''[repositories.apiServerRepo] failed to saving server'')
               else None,
           st\<lparr>objects := (objects st)(p := UnmarkModifiedFlag (objects st p))\<rparr>,
           a')) \<and>
   apiServerRepo_SaveBulk api ps st a =
     (case Request api
             \<lparr>Method = ''PATCH'', URL = ''/gdaemon_api/servers'',
              Body = BulkBody (sentValues {} (objects st) ps), PathParamID = None\<rparr> a of
        (resp, a') \<Rightarrow>
          (case resp of
             RequestFailed e \<Rightarrow>
               Some (WithMessage e ''[repositories.apiServerRepo] failed to bulk saving servers'')
           | Response code body \<Rightarrow>
               if code \<noteq> StatusOK
               then Some (WithMessage (NewErrInvalidResponseFromAPI code body)
                      ''[repositories.apiServerRepo] failed to bulk saving servers'')
               else None,
           st\<lparr>objects :=
                (\<lambda>q. if q \<in> set ps then UnmarkModifiedFlag (objects st q) else objects st q)\<rparr>,
           a'))"
proof (intro conjI)
  show "apiServerRepo_Save api p st a =
     (case Request api
             \<lparr>Method = ''PUT'', URL = ''/gdaemon_api/servers/{id}'',
              Body = SaveBody (saveStructFromServer (objects st p)),
              PathParamID = Some (serverID (objects st p))\<rparr> a of
        (resp, a') \<Rightarrow>
          (case resp of
             RequestFailed e \<Rightarrow>
               Some (WithMessage e ''[repositories.apiServerRepo] failed to saving server'')
           | Response code body \<Rightarrow>
               if code \<noteq> StatusOK
               then Some (WithMessage (NewErrInvalidResponseFromAPI code body)
                      ''[repositories.apiServerRepo] failed to saving server'')
               else None,
           st\<lparr>objects := (objects st)(p := UnmarkModifiedFlag (objects st p))\<rparr>,
           a'))"
    by (simp add: apiServerRepo_Save_def Let_def UnmarkModifiedFlag_def
        split: prod.splits response.splits)
next
  have v: "fst (saveBulkValues ps [] st) = sentValues {} (objects st) ps"
    using saveBulkValues_values[of st "{}" st ps "[]"] by simp
  have "saveBulkValues ps [] st =
      (sentValues {} (objects st) ps,
       st\<lparr>objects :=
                (\<lambda>q. if q \<in> set ps then UnmarkModifiedFlag (objects st q) else objects st q)\<rparr>)"
    using v saveBulkValues_state[of ps "[]" st] by (simp add: prod_eq_iff)
  then show "apiServerRepo_SaveBulk api ps st a =
     (case Request api
             \<lparr>Method = ''PATCH'', URL = ''/gdaemon_api/servers'',
              Body = BulkBody (sentValues {} (objects st) ps), PathParamID = None\<rparr> a of
        (resp, a') \<Rightarrow>
          (case resp of
             RequestFailed e \<Rightarrow>
               Some (WithMessage e ''[repositories.apiServerRepo] failed to bulk saving servers'')
           | Response code body \<Rightarrow>
               if code \<noteq> StatusOK
               then Some (WithMessage (NewErrInvalidResponseFromAPI code body)
                      ''[repositories.apiServerRepo] failed to bulk saving servers'')
               else None,
           st\<lparr>objects :=
                (\<lambda>q. if q \<in> set ps then UnmarkModifiedFlag (objects st q) else objects st q)\<rparr>,
           a'))"
    by (simp add: apiServerRepo_SaveBulk_def split: prod.splits response.splits)
qed (simp_all add: apiServerRepo_Save_objects apiServerRepo_SaveBulk_objects
      saveBulkValues_objects UnmarkModifiedFlag_def IsModified_def IsValueModified_def)

theorem Save_clears_flags_witness:
  "\<not> IsModified (objects (fst (snd (apiServerRepo_Save
        (scriptedClient (Response 500 []) exampleDocument) 0 dirtyRepository []))) 0) \<and>
   \<not> IsValueModified (objects (fst (snd (apiServerRepo_SaveBulk
        (scriptedClient (Response 500 []) exampleDocument) [0, 1] dirtyRepository []))) 1)
       ''status'' \<and>
   apiServerRepo_Save (scriptedClient (Response 500 []) exampleDocument) 0 dirtyRepository [] =
     (Some (Error ''[repositories.apiServerRepo] failed to saving server: invalid response from API: ''),
      dirtyRepository\<lparr>objects := (objects dirtyRepository)(0 := exampleServer)\<rparr>,
      [\<lparr>Method = ''PUT'', URL = ''/gdaemon_api/servers/{id}'',
        Body = SaveBody \<lparr>saveInstallationStatus = Some 1, saveLastProcessCheck = Some 50,
                          saveID = 1, saveProcessActive = 1\<rparr>,
        PathParamID = Some 1\<rparr>]) \<and>
   snd (snd (apiServerRepo_SaveBulk (scriptedClient (Response 200 []) exampleDocument) [0, 0]
               dirtyRepository [])) =
     [\<lparr>Method = ''PATCH'', URL = ''/gdaemon_api/servers'',
       Body = BulkBody
         [\<lparr>saveInstallationStatus = Some 1, saveLastProcessCheck = Some 50,
           saveID = 1, saveProcessActive = 1\<rparr>,
          \<lparr>saveInstallationStatus = None, saveLastProcessCheck = None,
           saveID = 1, saveProcessActive = 0\<rparr>],
       PathParamID = None\<rparr>]"
proof -
  note save = Save_clears_flags
    [of "scriptedClient (Response 500 []) exampleDocument" 0 dirtyRepository "[]" "[0, 1]"]
  note bulk = Save_clears_flags
    [of "scriptedClient (Response 200 []) exampleDocument" 0 dirtyRepository "[]" "[0, 0]"]
  have s: "serverID exampleServer = 1" "installationStatus exampleServer = 1"
    "lastStatusCheck exampleServer = 50" "processActive exampleServer"
    "modifiedFlags exampleServer = {}"
    "exampleServer\<lparr>modifiedFlags := {}\<rparr> = exampleServer"
    "\<And>q. objects dirtyRepository q =
       exampleServer\<lparr>modifiedFlags := {''installationStatus'', ''status''}\<rparr>"
    by (simp_all add: dirtyRepository_def exampleServer_def NewServer_def)
  from save[THEN conjunct1]
  have a: "\<not> IsModified (objects (fst (snd (apiServerRepo_Save
        (scriptedClient (Response 500 []) exampleDocument) 0 dirtyRepository []))) 0)" .
  have "(1::nat) \<in> set [0, 1]"
    by simp
  from save[THEN conjunct2, THEN conjunct2, THEN conjunct2, THEN conjunct1, THEN bspec, OF this]
  have b: "\<not> IsValueModified (objects (fst (snd (apiServerRepo_SaveBulk
        (scriptedClient (Response 500 []) exampleDocument) [0, 1] dirtyRepository []))) 1)
       ''status''"
    by (rule conjunct2[THEN conjunct2])
  from save[THEN conjunct2, THEN conjunct2, THEN conjunct2, THEN conjunct2, THEN conjunct1]
  have c: "apiServerRepo_Save (scriptedClient (Response 500 []) exampleDocument) 0
             dirtyRepository [] =
     (Some (Error ''[repositories.apiServerRepo] failed to saving server: invalid response from API: ''),
      dirtyRepository\<lparr>objects := (objects dirtyRepository)(0 := exampleServer)\<rparr>,
      [\<lparr>Method = ''PUT'', URL = ''/gdaemon_api/servers/{id}'',
        Body = SaveBody \<lparr>saveInstallationStatus = Some 1, saveLastProcessCheck = Some 50,
                          saveID = 1, saveProcessActive = 1\<rparr>,
        PathParamID = Some 1\<rparr>])"
    by (simp add: s saveStructFromServer_def IsValueModified_def InstallationStatus_def
        LastStatusCheck_def IsActive_def UnmarkModifiedFlag_def StatusOK_def
        NewErrInvalidResponseFromAPI_def)
  from bulk[THEN conjunct2, THEN conjunct2, THEN conjunct2, THEN conjunct2, THEN conjunct2]
  have d: "snd (snd (apiServerRepo_SaveBulk (scriptedClient (Response 200 []) exampleDocument)
               [0, 0] dirtyRepository [])) =
     [\<lparr>Method = ''PATCH'', URL = ''/gdaemon_api/servers'',
       Body = BulkBody
         [\<lparr>saveInstallationStatus = Some 1, saveLastProcessCheck = Some 50,
           saveID = 1, saveProcessActive = 1\<rparr>,
          \<lparr>saveInstallationStatus = None, saveLastProcessCheck = None,
           saveID = 1, saveProcessActive = 0\<rparr>],
       PathParamID = None\<rparr>]"
    by (simp add: s saveStructFromServer_def IsValueModified_def InstallationStatus_def
        LastStatusCheck_def IsActive_def UnmarkModifiedFlag_def StatusOK_def)
  from a b c d show ?thesis by blast
qed

text \<open>Claim C4 as it is stated fails where the request fails: both flags are set before
  the save; the save returns the error of the request; and both flags are cleared.\<close>

theorem Save_failed_flush_counterexample:
  "IsValueModified (objects dirtyRepository 0) ''installationStatus'' \<and>
   IsValueModified (objects dirtyRepository 0) ''status'' \<and>
   fst (apiServerRepo_Save (scriptedClient (RequestFailed (Error ''connection refused''))
          exampleDocument) 0 dirtyRepository []) =
     Some (Error ''[repositories.apiServerRepo] failed to saving server: connection refused'') \<and>
   \<not> IsValueModified (objects (fst (snd (apiServerRepo_Save
          (scriptedClient (RequestFailed (Error ''connection refused'')) exampleDocument)
          0 dirtyRepository []))) 0) ''installationStatus'' \<and>
   \<not> IsValueModified (objects (fst (snd (apiServerRepo_Save
          (scriptedClient (RequestFailed (Error ''connection refused'')) exampleDocument)
          0 dirtyRepository []))) 0) ''status''"
  by (simp add: apiServerRepo_Save_objects UnmarkModifiedFlag_def IsValueModified_def)
     (simp add: apiServerRepo_Save_def dirtyRepository_def)

subsection \<open>The cache and the merge\<close>

lemma servers_store_same: "servers st i = Some p \<Longrightarrow> st\<lparr>servers := (servers st)(i \<mapsto> p)\<rparr> = st"
  by (simp add: fun_upd_idem)

lemma ttl_expired: "(t - now + serverCacheTTL < 0) = (serverCacheTTL < now - t)"
  by arith

text \<open>
  \<^bold>\<open>Claim C9\<close>, as the code has it. For every \<open>ServerRepository.FindByID(id)\<close>: if the server
  is cached and is locally dirty, no request is made and the cached server is returned, the
  repository being unchanged; the same holds for a cached server unless its entry is older
  than the TTL of 10 seconds and it is not dirty; a refetch occurs when the cache entry is
  absent, or is older than the TTL and not dirty. When a refetch merges into an existing
  server, \<open>installationStatus\<close> keeps its local value if its flag is set and takes the API's
  otherwise; \<open>processActive\<close> does so by the flag \<open>status\<close>; \<open>lastStatusCheck\<close> takes the
  API's only when the flag \<open>status\<close> is not set and the API's \<open>processActive\<close> differs from
  the local one, and keeps its local value otherwise; the id is kept; every other field is
  overwritten from the API.
\<close>

theorem ServerRepository_FindByID_cache:
  "(servers st i = Some p \<and> IsModified (objects st p) \<longrightarrow>
      ServerRepository_FindByID api i now now' st a = ((Some p, None), st, a)) \<and>
   (servers st i = Some p \<and>
    \<not> (\<exists>t. lastUpdated st i = Some t \<and> now - t > serverCacheTTL \<and> \<not> IsModified (objects st p)) \<longrightarrow>
      ServerRepository_FindByID api i now now' st a = ((Some p, None), st, a)) \<and>
   (servers st i = None \<or>
    (\<exists>t p. servers st i = Some p \<and> lastUpdated st i = Some t \<and> now - t > serverCacheTTL \<and>
           \<not> IsModified (objects st p)) \<longrightarrow>
      ServerRepository_FindByID api i now now' st a =
        fetched i now' (apiServerRepo_FindByID api i st a)) \<and>
   (Request api \<lparr>Method = ''GET'', URL = ''/gdaemon_api/servers/{id}'', Body = NoBody,
                  PathParamID = Some i\<rparr> a = (Response StatusOK body, a') \<and>
    unmarshalServer api body = Inr srv \<and>
    parseLastProcessCheck api (LastProcessCheck srv) = Inr lastProcessCheck \<and>
    parseRFC3339 api (UpdatedAt srv) = Inr upd \<and>
    innerServers st (ID srv) = Some item \<longrightarrow>
      objects (fst (snd (apiServerRepo_FindByID api i st a))) item =
        (objects st item)
          \<lparr>installationStatus :=
             (if IsValueModified (objects st item) ''installationStatus''
              then installationStatus (objects st item) else InstallStatus srv),
           processActive :=
             (if IsValueModified (objects st item) ''status''
              then processActive (objects st item) else ProcessActive srv),
           lastStatusCheck :=
             (if \<not> IsValueModified (objects st item) ''status'' \<and>
                 processActive (objects st item) \<noteq> ProcessActive srv
              then lastProcessCheck else lastStatusCheck (objects st item)),
           enabled := Enabled srv, blocked := Blocked srv, name := Name srv, uuid := UUID srv,
           uuidShort := UUIDShort srv, game := Game srv, gameMod := GameMod srv, ip := IP srv,
           connectPort := ConnectPort srv, queryPort := QueryPort srv, rconPort := RconPort srv,
           rconPassword := RconPassword srv, dir := Dir srv, user := User srv,
           startCommand := StartCommand srv, stopCommand := StopCommand srv,
           forceStopCommand := ForceStopCommand srv, restartCommand := RestartCommand srv,
           vars := Vars srv, settings := foldl addSetting Map.empty (Settings srv),
           updatedAt := upd\<rparr>)"
proof (intro conjI impI)
  assume "servers st i = Some p \<and> IsModified (objects st p)"
  then show "ServerRepository_FindByID api i now now' st a = ((Some p, None), st, a)"
    by (simp add: ServerRepository_FindByID_def servers_store_same split: option.splits)
next
  assume "servers st i = Some p \<and>
    \<not> (\<exists>t. lastUpdated st i = Some t \<and> now - t > serverCacheTTL \<and> \<not> IsModified (objects st p))"
  then show "ServerRepository_FindByID api i now now' st a = ((Some p, None), st, a)"
    by (auto simp add: ServerRepository_FindByID_def servers_store_same ttl_expired
        split: option.splits)
next
  assume "servers st i = None \<or>
    (\<exists>t p. servers st i = Some p \<and> lastUpdated st i = Some t \<and> now - t > serverCacheTTL \<and>
           \<not> IsModified (objects st p))"
  then show "ServerRepository_FindByID api i now now' st a =
        fetched i now' (apiServerRepo_FindByID api i st a)"
    by (auto simp add: ServerRepository_FindByID_def ttl_expired split: option.splits)
next
  assume "Request api \<lparr>Method = ''GET'', URL = ''/gdaemon_api/servers/{id}'', Body = NoBody,
                  PathParamID = Some i\<rparr> a = (Response StatusOK body, a') \<and>
    unmarshalServer api body = Inr srv \<and>
    parseLastProcessCheck api (LastProcessCheck srv) = Inr lastProcessCheck \<and>
    parseRFC3339 api (UpdatedAt srv) = Inr upd \<and>
    innerServers st (ID srv) = Some item"
  then show "objects (fst (snd (apiServerRepo_FindByID api i st a))) item =
        (objects st item)
          \<lparr>installationStatus :=
             (if IsValueModified (objects st item) ''installationStatus''
              then installationStatus (objects st item) else InstallStatus srv),
           processActive :=
             (if IsValueModified (objects st item) ''status''
              then processActive (objects st item) else ProcessActive srv),
           lastStatusCheck :=
             (if \<not> IsValueModified (objects st item) ''status'' \<and>
                 processActive (objects st item) \<noteq> ProcessActive srv
              then lastProcessCheck else lastStatusCheck (objects st item)),
           enabled := Enabled srv, blocked := Blocked srv, name := Name srv, uuid := UUID srv,
           uuidShort := UUIDShort srv, game := Game srv, gameMod := GameMod srv, ip := IP srv,
           connectPort := ConnectPort srv, queryPort := QueryPort srv, rconPort := RconPort srv,
           rconPassword := RconPassword srv, dir := Dir srv, user := User srv,
           startCommand := StartCommand srv, stopCommand := StopCommand srv,
           forceStopCommand := ForceStopCommand srv, restartCommand := RestartCommand srv,
           vars := Vars srv, settings := foldl addSetting Map.empty (Settings srv),
           updatedAt := upd\<rparr>"
    by (simp add: apiServerRepo_FindByID_def StatusOK_def StatusNotFound_def Let_def Set_def
        InstallationStatus_def IsActive_def LastStatusCheck_def)
qed

lemma example_objects [simp]:
  "objects exampleRepository q = exampleServer"
  "objects dirtyRepository q = exampleServer\<lparr>modifiedFlags := {''installationStatus'', ''status''}\<rparr>"
  "servers exampleRepository 1 = Some 0" "servers dirtyRepository 1 = Some 0"
  "innerServers exampleRepository 1 = Some 0" "innerServers dirtyRepository 1 = Some 0"
  "lastUpdated exampleRepository 1 = Some 0" "lastUpdated dirtyRepository 1 = Some 0"
  by (simp_all add: exampleRepository_def dirtyRepository_def)

lemma exampleServer_fields [simp]:
  "installationStatus exampleServer = 1" "lastStatusCheck exampleServer = 50"
  "processActive exampleServer = True" "modifiedFlags exampleServer = {}"
  "name exampleServer = ''local''"
  by (simp_all add: exampleServer_def NewServer_def)

lemma exampleDocument_fields [simp]:
  "ID exampleDocument = 1" "InstallStatus exampleDocument = 0"
  "ProcessActive exampleDocument = True" "Name exampleDocument = ''renamed''"
  "LastProcessCheck exampleDocument = ''later''"
  by (simp_all add: exampleDocument_def)

lemma parseLastProcessCheck_scripted [simp]:
  "parseLastProcessCheck (scriptedClient resp doc) ''later'' = Inr 90"
  by (simp add: parseLastProcessCheck_def)

theorem ServerRepository_FindByID_cache_witness:
  "ServerRepository_FindByID (scriptedClient (Response 200 []) exampleDocument)
     1 100 100 dirtyRepository [] = ((Some 0, None), dirtyRepository, []) \<and>
   ServerRepository_FindByID (scriptedClient (Response 200 []) exampleDocument)
     1 5 5 exampleRepository [] = ((Some 0, None), exampleRepository, []) \<and>
   ServerRepository_FindByID (scriptedClient (Response 200 []) exampleDocument)
     1 100 100 exampleRepository [] =
     fetched 1 100 (apiServerRepo_FindByID (scriptedClient (Response 200 []) exampleDocument)
       1 exampleRepository []) \<and>
   installationStatus (objects (fst (snd (apiServerRepo_FindByID
      (scriptedClient (Response 200 []) exampleDocument) 1 dirtyRepository []))) 0) = 1 \<and>
   name (objects (fst (snd (apiServerRepo_FindByID
      (scriptedClient (Response 200 []) exampleDocument) 1 dirtyRepository []))) 0) = ''renamed''"
proof -
  have a: "ServerRepository_FindByID (scriptedClient (Response 200 []) exampleDocument)
     1 100 100 dirtyRepository [] = ((Some 0, None), dirtyRepository, [])"
    using ServerRepository_FindByID_cache
      [where st = dirtyRepository and i = 1 and p = 0 and now = 100 and now' = 100
         and api = "scriptedClient (Response 200 []) exampleDocument" and a = "[]"]
    by (simp add: IsModified_def)
  have b: "ServerRepository_FindByID (scriptedClient (Response 200 []) exampleDocument)
     1 5 5 exampleRepository [] = ((Some 0, None), exampleRepository, [])"
    using ServerRepository_FindByID_cache
      [where st = exampleRepository and i = 1 and p = 0 and now = 5 and now' = 5
         and api = "scriptedClient (Response 200 []) exampleDocument" and a = "[]"]
    by (simp add: serverCacheTTL_def)
  have c: "ServerRepository_FindByID (scriptedClient (Response 200 []) exampleDocument)
     1 100 100 exampleRepository [] =
     fetched 1 100 (apiServerRepo_FindByID (scriptedClient (Response 200 []) exampleDocument)
       1 exampleRepository [])"
    using ServerRepository_FindByID_cache
      [where st = exampleRepository and i = 1 and now = 100 and now' = 100
         and api = "scriptedClient (Response 200 []) exampleDocument" and a = "[]"]
    by (simp add: serverCacheTTL_def IsModified_def)
  have d: "objects (fst (snd (apiServerRepo_FindByID
      (scriptedClient (Response 200 []) exampleDocument) 1 dirtyRepository []))) 0 =
      (exampleServer\<lparr>modifiedFlags := {''installationStatus'', ''status''}\<rparr>)
          \<lparr>installationStatus := 1, processActive := True, lastStatusCheck := 50,
           enabled := Enabled exampleDocument, blocked := Blocked exampleDocument,
           name := ''renamed'', uuid := UUID exampleDocument,
           uuidShort := UUIDShort exampleDocument, game := Game exampleDocument,
           gameMod := GameMod exampleDocument, ip := IP exampleDocument,
           connectPort := ConnectPort exampleDocument, queryPort := QueryPort exampleDocument,
           rconPort := RconPort exampleDocument, rconPassword := RconPassword exampleDocument,
           dir := Dir exampleDocument, user := User exampleDocument,
           startCommand := StartCommand exampleDocument,
           stopCommand := StopCommand exampleDocument,
           forceStopCommand := ForceStopCommand exampleDocument,
           restartCommand := RestartCommand exampleDocument,
           vars := Vars exampleDocument,
           settings := foldl addSetting Map.empty (Settings exampleDocument),
           updatedAt := 100\<rparr>"
    using ServerRepository_FindByID_cache
      [where st = dirtyRepository and i = 1 and a = "[]" and body = "[]"
         and api = "scriptedClient (Response 200 []) exampleDocument"
         and a' = "[\<lparr>Method = ''GET'', URL = ''/gdaemon_api/servers/{id}'', Body = NoBody,
                  PathParamID = Some 1\<rparr>]"
         and srv = exampleDocument and lastProcessCheck = 90 and upd = 100 and item = 0]
    by (simp add: StatusOK_def IsValueModified_def)
  from a b c d show ?thesis by simp
qed

text \<open>Claim C9 as it is stated fails on the merge. The cached server is not dirty and its
  entry is older than the TTL, so it is refetched and merged: \<open>installationStatus\<close>, a
  dirty-tracked field, does not keep its local value \<open>1\<close> but takes the API's \<open>0\<close>; and
  \<open>lastStatusCheck\<close>, which is not dirty, is not overwritten by the API's \<open>90\<close> but keeps
  its local value \<open>50\<close>, since \<open>processActive\<close> is the same on both sides. The name is
  overwritten.\<close>

theorem FindByID_merge_counterexample:
  "installationStatus (objects exampleRepository 0) = 1 \<and>
   lastStatusCheck (objects exampleRepository 0) = 50 \<and>
   \<not> IsModified (objects exampleRepository 0) \<and>
   parseLastProcessCheck (scriptedClient (Response 200 []) exampleDocument)
     (LastProcessCheck exampleDocument) = Inr 90 \<and>
   fst (ServerRepository_FindByID (scriptedClient (Response 200 []) exampleDocument)
          1 100 100 exampleRepository []) = (Some 0, None) \<and>
   installationStatus (objects (fst (snd (ServerRepository_FindByID
      (scriptedClient (Response 200 []) exampleDocument) 1 100 100 exampleRepository []))) 0) = 0 \<and>
   lastStatusCheck (objects (fst (snd (ServerRepository_FindByID
      (scriptedClient (Response 200 []) exampleDocument) 1 100 100 exampleRepository []))) 0) = 50 \<and>
   name (objects (fst (snd (ServerRepository_FindByID
      (scriptedClient (Response 200 []) exampleDocument) 1 100 100 exampleRepository []))) 0) =
     ''renamed''"
  by (simp add: IsModified_def ServerRepository_FindByID_def serverCacheTTL_def fetched_def
      apiServerRepo_FindByID_def StatusOK_def StatusNotFound_def Let_def Set_def
      IsValueModified_def InstallationStatus_def IsActive_def LastStatusCheck_def)

section \<open>Properties of the task scheduler\<close>

subsection \<open>The queue\<close>

lemma findByID_None: "findByID q st i = None \<longleftrightarrow> (\<forall>p \<in> set q. taskID (st p) \<noteq> i)"
  by (auto simp add: findByID_def find_None_iff)





lemma failTask_trace [simp]: "trace (failTask m p) = trace m"
  by (simp add: failTask_def split: prod.splits option.splits)


lemma insert_tasks_distinct:
  "distinct (map (\<lambda>p. taskID (st p)) q) \<Longrightarrow>
   distinct (map (\<lambda>p. taskID (st p)) (insert_tasks q st ts))"
proof (induction ts arbitrary: q)
  case Nil
  then show ?case by simp
next
  case (Cons t ts)
  show ?case
  proof (cases "findByID q st (taskID (st t))")
    case None
    then have "\<forall>p \<in> set q. taskID (st p) \<noteq> taskID (st t)"
      by (simp add: findByID_None)
    with Cons.prems have "distinct (map (\<lambda>p. taskID (st p)) (q @ [t]))"
      by (auto simp add: image_iff)
    from Cons.IH[OF this] None show ?thesis by simp
  next
    case (Some e)
    with Cons show ?thesis by simp
  qed
qed

lemma exampleManager_simps [simp]:
  "queue exampleManager = [0, 1]" "tasks exampleManager 0 = stopAfterStart"
  "tasks exampleManager (Suc 0) = startFirst"
  "trace exampleManager = []" "tasksAllocated exampleManager = 2"
  "commandsAllocated exampleManager = 0"
  by (simp_all add: exampleManager_def)

lemma example_tasks [simp]:
  "taskID stopAfterStart = 2" "runAfterID stopAfterStart = 1"
  "status stopAfterStart = GDTaskStatusWaiting" "task stopAfterStart = GDTaskGameServerStop"
  "taskID startFirst = 1" "runAfterID startFirst = 0"
  "status startFirst = GDTaskStatusWaiting"
  "status (leftWorking i) = GDTaskStatusWorking"
  by (simp_all add: stopAfterStart_def startFirst_def leftWorking_def)

lemma failTask_others [simp]: "a \<noteq> p \<Longrightarrow> tasks (failTask m p) a = tasks m a"
  by (simp add: failTask_def SetStatus_def)








subsection \<open>The recovery after a restart\<close>

lemma failWorkingTask_trace:
  "trace (failWorkingTask p m) = trace m @ recovery (tasks m p)"
  by (simp add: failWorkingTask_def SetStatus_def recovery_def repositorySave_def
      appendTaskOutput_def)

lemma failWorkingTask_tasks:
  "tasks (failWorkingTask p m) q =
     (if q = p \<and> legalTransition (status (tasks m p)) GDTaskStatusError
      then (tasks m p)\<lparr>status := GDTaskStatusError\<rparr> else tasks m q)"
  by (simp add: failWorkingTask_def SetStatus_def repositorySave_def appendTaskOutput_def)

lemma fold_failWorkingTask_trace:
  "distinct ps \<Longrightarrow>
   trace (fold failWorkingTask ps m) = trace m @ concat (map (\<lambda>p. recovery (tasks m p)) ps)"
proof (induction ps arbitrary: m)
  case Nil
  show ?case by simp
next
  case (Cons p ps)
  have eq: "map (\<lambda>q. recovery (tasks (failWorkingTask p m) q)) ps =
            map (\<lambda>q. recovery (tasks m q)) ps"
    by (rule map_cong[OF refl]) (use Cons.prems in \<open>auto simp add: failWorkingTask_tasks\<close>)
  have "trace (fold failWorkingTask (p # ps) m) =
        trace (fold failWorkingTask ps (failWorkingTask p m))"
    by simp
  also have "\<dots> = trace (failWorkingTask p m) @
                   concat (map (\<lambda>q. recovery (tasks (failWorkingTask p m) q)) ps)"
    using Cons by simp
  also have "\<dots> = trace m @ recovery (tasks m p) @ concat (map (\<lambda>q. recovery (tasks m q)) ps)"
    unfolding eq by (simp add: failWorkingTask_trace)
  finally show ?case by simp
qed

lemma fold_failWorkingTask_tasks:
  "distinct ps \<Longrightarrow>
   tasks (fold failWorkingTask ps m) q =
     (if q \<in> set ps \<and> legalTransition (status (tasks m q)) GDTaskStatusError
      then (tasks m q)\<lparr>status := GDTaskStatusError\<rparr> else tasks m q)"
proof (induction ps arbitrary: m)
  case Nil
  show ?case by simp
next
  case (Cons p ps)
  then show ?case by (auto simp add: failWorkingTask_tasks)
qed

lemma allocate_Cons:
  "allocate (t # ts) m =
     (tasksAllocated m #
        fst (allocate ts (m\<lparr>tasks := (tasks m)(tasksAllocated m := t),
                           tasksAllocated := Suc (tasksAllocated m)\<rparr>)),
      snd (allocate ts (m\<lparr>tasks := (tasks m)(tasksAllocated m := t),
                         tasksAllocated := Suc (tasksAllocated m)\<rparr>)))"
  by (simp split: prod.splits)

lemma allocate_addresses:
  "fst (allocate ts m) = [tasksAllocated m ..< tasksAllocated m + length ts]"
proof (induction ts arbitrary: m)
  case Nil
  show ?case by simp
next
  case (Cons t ts)
  have "[tasksAllocated m ..< tasksAllocated m + length (t # ts)] =
        tasksAllocated m # [Suc (tasksAllocated m) ..< Suc (tasksAllocated m) + length ts]"
    by (subst upt_rec) simp
  then show ?case
    by (simp add: allocate_Cons Cons.IH del: allocate.simps(2))
qed

lemma allocate_trace [simp]: "trace (snd (allocate ts m)) = trace m"
  by (induction ts arbitrary: m) (simp_all add: allocate_Cons del: allocate.simps(2))

lemma allocate_queue [simp]: "queue (snd (allocate ts m)) = queue m"
  by (induction ts arbitrary: m) (simp_all add: allocate_Cons del: allocate.simps(2))

lemma allocate_tasksAllocated [simp]:
  "tasksAllocated (snd (allocate ts m)) = tasksAllocated m + length ts"
  by (induction ts arbitrary: m) (simp_all add: allocate_Cons del: allocate.simps(2))

lemma allocate_old:
  "a < tasksAllocated m \<Longrightarrow> tasks (snd (allocate ts m)) a = tasks m a"
  by (induction ts arbitrary: m) (simp_all add: allocate_Cons del: allocate.simps(2))

lemma allocate_new:
  "i < length ts \<Longrightarrow> tasks (snd (allocate ts m)) (tasksAllocated m + i) = ts ! i"
proof (induction ts arbitrary: m i)
  case Nil
  then show ?case by simp
next
  case (Cons t ts)
  show ?case
  proof (cases i)
    case 0
    then show ?thesis
      by (simp add: allocate_Cons allocate_old del: allocate.simps(2))
  next
    case (Suc j)
    with Cons.prems have "j < length ts" by simp
    from Cons.IH[OF this, of "m\<lparr>tasks := (tasks m)(tasksAllocated m := t),
                tasksAllocated := Suc (tasksAllocated m)\<rparr>"] Suc
    show ?thesis by (simp add: allocate_Cons del: allocate.simps(2))
  qed
qed

lemma failWorkingTaskAfterRestart_trace:
  "trace (failWorkingTaskAfterRestart m (ts, err)) = trace m @ concat (map recovery ts)"
proof -
  define ps where "ps = fst (allocate ts m)"
  define m' where "m' = snd (allocate ts m)"
  have al: "allocate ts m = (ps, m')" by (simp add: ps_def m'_def)
  have ps: "ps = [tasksAllocated m ..< tasksAllocated m + length ts]"
    by (simp add: ps_def allocate_addresses)
  have "map (\<lambda>p. recovery (tasks m' p)) ps =
        map (\<lambda>i. recovery (tasks m' (tasksAllocated m + i))) [0 ..< length ts]"
    unfolding ps by (rule nth_equalityI) simp_all
  also have "\<dots> = map (\<lambda>i. recovery (ts ! i)) [0 ..< length ts]"
    by (simp add: m'_def allocate_new cong: map_cong)
  also have "\<dots> = map recovery ts"
    by (rule nth_equalityI) simp_all
  finally have eq: "map (\<lambda>p. recovery (tasks m' p)) ps = map recovery ts" .
  have d: "distinct ps" unfolding ps by simp
  have tr: "trace m' = trace m" by (simp add: m'_def)
  have "trace (failWorkingTaskAfterRestart m (ts, err)) = trace (fold failWorkingTask ps m')"
    by (simp add: failWorkingTaskAfterRestart_def al)
  also have "\<dots> = trace m' @ concat (map (\<lambda>p. recovery (tasks m' p)) ps)"
    by (rule fold_failWorkingTask_trace[OF d])
  finally show ?thesis by (simp only: eq tr)
qed

lemma failWorkingTaskAfterRestart_tasks:
  assumes "i < length ts"
  shows "tasks (failWorkingTaskAfterRestart m (ts, err)) (tasksAllocated m + i) =
           (if legalTransition (status (ts ! i)) GDTaskStatusError
            then (ts ! i)\<lparr>status := GDTaskStatusError\<rparr> else ts ! i)"
proof -
  define ps where "ps = fst (allocate ts m)"
  define m' where "m' = snd (allocate ts m)"
  have al: "allocate ts m = (ps, m')" by (simp add: ps_def m'_def)
  have ps: "ps = [tasksAllocated m ..< tasksAllocated m + length ts]"
    by (simp add: ps_def allocate_addresses)
  have d: "distinct ps" unfolding ps by simp
  have mem: "tasksAllocated m + i \<in> set ps" unfolding ps using assms by simp
  have new: "tasks m' (tasksAllocated m + i) = ts ! i"
    using assms by (simp add: m'_def allocate_new)
  have "tasks (failWorkingTaskAfterRestart m (ts, err)) (tasksAllocated m + i) =
        tasks (fold failWorkingTask ps m') (tasksAllocated m + i)"
    by (simp add: failWorkingTaskAfterRestart_def al)
  also have "\<dots> = (if legalTransition (status (ts ! i)) GDTaskStatusError
            then (ts ! i)\<lparr>status := GDTaskStatusError\<rparr> else ts ! i)"
    using mem new by (simp add: fold_failWorkingTask_tasks[OF d])
  finally show ?thesis .
qed

lemma updateTasksIfNeeded_trace [simp]:
  "trace (snd (updateTasksIfNeeded m now now' answer)) = trace m"
  by (cases answer) (simp add: updateTasksIfNeeded_def Let_def split: prod.splits option.splits,
      metis allocate_trace snd_conv)

lemma updateTasksIfNeeded_tasks:
  "a < tasksAllocated m \<Longrightarrow> tasks (snd (updateTasksIfNeeded m now now' answer)) a = tasks m a"
  by (cases answer) (simp add: updateTasksIfNeeded_def Let_def split: prod.splits option.splits,
      metis allocate_old snd_conv)

lemma failWorkingTask_tasksAllocated [simp]:
  "tasksAllocated (failWorkingTask p m) = tasksAllocated m"
  by (simp add: failWorkingTask_def SetStatus_def repositorySave_def appendTaskOutput_def)

lemma fold_failWorkingTask_tasksAllocated [simp]:
  "tasksAllocated (fold failWorkingTask ps m) = tasksAllocated m"
  by (induction ps arbitrary: m) simp_all

lemma failWorkingTaskAfterRestart_tasksAllocated [simp]:
  "tasksAllocated (failWorkingTaskAfterRestart m (ts, err)) = tasksAllocated m + length ts"
proof -
  have "allocate ts m = (fst (allocate ts m), snd (allocate ts m))" by simp
  then show ?thesis
    by (simp add: failWorkingTaskAfterRestart_def del: surjective_pairing split: prod.splits)
       (metis allocate_tasksAllocated snd_conv)
qed

text \<open>
  \<^bold>\<open>Claim C6.\<close> On the entry of \<open>TaskManager.Run\<close>, for every task that the task source
  returns for the status Working and that has this status: the task is moved to the status
  Error, the text \<open>Working task failed. GameAP Daemon was restarted.\<close> is appended to its
  output (\<open>AppendOutput\<close> is called with it), and the task is persisted back to the task
  source right after (\<open>Save\<close> is called with the task in the status Error).
\<close>

theorem Run_entry_fails_working_tasks:
  assumes "i < length workingTasks"
    and "status (workingTasks ! i) = GDTaskStatusWorking"
  shows
    "tasks (Run_entry m (workingTasks, err) now now' waiting) (tasksAllocated m + i) =
       (workingTasks ! i)\<lparr>status := GDTaskStatusError\<rparr> \<and>
     (\<exists>before after.
        trace (Run_entry m (workingTasks, err) now now' waiting) =
          trace m @ before @
          [RepositoryAppendOutput ((workingTasks ! i)\<lparr>status := GDTaskStatusError\<rparr>)
             ''Working task failed. GameAP Daemon was restarted.'',
           RepositorySave ((workingTasks ! i)\<lparr>status := GDTaskStatusError\<rparr>)] @ after)"
proof
  have "tasksAllocated m + i < tasksAllocated (failWorkingTaskAfterRestart m (workingTasks, err))"
    using assms(1) by simp
  from updateTasksIfNeeded_tasks[OF this]
  show "tasks (Run_entry m (workingTasks, err) now now' waiting) (tasksAllocated m + i) =
       (workingTasks ! i)\<lparr>status := GDTaskStatusError\<rparr>"
    using assms by (simp add: Run_entry_def failWorkingTaskAfterRestart_tasks)
next
  from assms(1) have split: "workingTasks =
      take i workingTasks @ (workingTasks ! i) # drop (Suc i) workingTasks"
    by (simp add: id_take_nth_drop)
  have "concat (map recovery workingTasks) =
        concat (map recovery (take i workingTasks)) @ recovery (workingTasks ! i) @
        concat (map recovery (drop (Suc i) workingTasks))"
    by (subst split) simp
  with assms(2) have "trace (Run_entry m (workingTasks, err) now now' waiting) =
      trace m @ concat (map recovery (take i workingTasks)) @
      [RepositoryAppendOutput ((workingTasks ! i)\<lparr>status := GDTaskStatusError\<rparr>)
             ''Working task failed. GameAP Daemon was restarted.'',
           RepositorySave ((workingTasks ! i)\<lparr>status := GDTaskStatusError\<rparr>)] @
      concat (map recovery (drop (Suc i) workingTasks))"
    by (simp add: Run_entry_def failWorkingTaskAfterRestart_trace recovery_def)
  then show "\<exists>before after.
        trace (Run_entry m (workingTasks, err) now now' waiting) =
          trace m @ before @
          [RepositoryAppendOutput ((workingTasks ! i)\<lparr>status := GDTaskStatusError\<rparr>)
             ''Working task failed. GameAP Daemon was restarted.'',
           RepositorySave ((workingTasks ! i)\<lparr>status := GDTaskStatusError\<rparr>)] @ after"
    by blast
qed

theorem Run_entry_fails_working_tasks_witness:
  "tasks (Run_entry exampleManager ([leftWorking 7, leftWorking 8], None) 100 100 ([], None)) 3 =
     (leftWorking 8)\<lparr>status := GDTaskStatusError\<rparr> \<and>
   trace (Run_entry exampleManager ([leftWorking 7, leftWorking 8], None) 100 100 ([], None)) =
     [RepositoryAppendOutput ((leftWorking 7)\<lparr>status := GDTaskStatusError\<rparr>)
        ''Working task failed. GameAP Daemon was restarted.'',
      RepositorySave ((leftWorking 7)\<lparr>status := GDTaskStatusError\<rparr>),
      RepositoryAppendOutput ((leftWorking 8)\<lparr>status := GDTaskStatusError\<rparr>)
        ''Working task failed. GameAP Daemon was restarted.'',
      RepositorySave ((leftWorking 8)\<lparr>status := GDTaskStatusError\<rparr>)]"
proof -
  have a: "tasks (Run_entry exampleManager ([leftWorking 7, leftWorking 8], None) 100 100
             ([], None)) 3 = (leftWorking 8)\<lparr>status := GDTaskStatusError\<rparr>"
    using Run_entry_fails_working_tasks[where m = exampleManager and i = 1
        and workingTasks = "[leftWorking 7, leftWorking 8]" and err = None and now = 100
        and now' = 100 and waiting = "([], None)"]
    by (simp add: numeral_3_eq_3)
  have b: "trace (Run_entry exampleManager ([leftWorking 7, leftWorking 8], None) 100 100
             ([], None)) =
     [RepositoryAppendOutput ((leftWorking 7)\<lparr>status := GDTaskStatusError\<rparr>)
        ''Working task failed. GameAP Daemon was restarted.'',
      RepositorySave ((leftWorking 7)\<lparr>status := GDTaskStatusError\<rparr>),
      RepositoryAppendOutput ((leftWorking 8)\<lparr>status := GDTaskStatusError\<rparr>)
        ''Working task failed. GameAP Daemon was restarted.'',
      RepositorySave ((leftWorking 8)\<lparr>status := GDTaskStatusError\<rparr>)]"
    by (simp add: Run_entry_def failWorkingTaskAfterRestart_trace recovery_def)
  from a b show ?thesis by simp
qed

subsection \<open>The invariant of the queue\<close>

text \<open>The queue is empty at first, and the entry of \<open>Run\<close>, the updates and the steps of
  the worker keep its invariant: \<open>insert\<close> adds no task whose id is there already, the
  rotation of \<open>Next\<close> and the swap of \<open>Remove\<close> keep the ids distinct, and no step changes
  the id of a task.\<close>

lemma distinct_swap_remove:
  assumes "distinct ys" and "i < length ys"
  shows "distinct (butlast (ys[i := last ys]))"
proof -
  from assms have ne: "ys \<noteq> []" by auto
  have len: "length (butlast (ys[i := last ys])) = length ys - 1" by simp
  have nth: "\<And>j. j < length ys - 1 \<Longrightarrow>
      butlast (ys[i := last ys]) ! j = (if j = i then ys ! (length ys - 1) else ys ! j)"
    using ne assms(2) by (simp add: nth_butlast nth_list_update last_conv_nth)
  show ?thesis
    unfolding distinct_conv_nth len
  proof (intro allI impI)
    fix j k
    assume j: "j < length ys - 1" and k: "k < length ys - 1" and jk: "j \<noteq> k"
    from assms(1) j k jk have "ys ! j \<noteq> ys ! k" "ys ! j \<noteq> ys ! (length ys - 1)"
      "ys ! (length ys - 1) \<noteq> ys ! k"
      by (auto simp add: distinct_conv_nth)
    with j k jk show "butlast (ys[i := last ys]) ! j \<noteq> butlast (ys[i := last ys]) ! k"
      by (simp add: nth)
  qed
qed

lemma firstIndex_less: "firstIndex P xs = Some i \<Longrightarrow> i < length xs"
  by (induction xs arbitrary: i) (auto split: if_splits option.splits)

lemma Remove_distinct:
  assumes "distinct (map (\<lambda>p. taskID (st p)) q)"
  shows "distinct (map (\<lambda>p. taskID (st p)) (Remove q st p))"
proof (cases "firstIndex (\<lambda>x. taskID (st x) = taskID (st p)) q")
  case None
  with assms show ?thesis by (simp add: Remove_def)
next
  case (Some i)
  then have i: "i < length q" by (rule firstIndex_less)
  then have ne: "q \<noteq> []" by auto
  have "map (\<lambda>p. taskID (st p)) (butlast (q[i := last q])) =
        butlast ((map (\<lambda>p. taskID (st p)) q)[i := last (map (\<lambda>p. taskID (st p)) q)])"
    using ne by (simp add: map_butlast map_update last_map)
  with distinct_swap_remove[OF assms, of i] i Some ne show ?thesis
    by (simp add: Remove_def)
qed

lemma insert_tasks_set: "set (insert_tasks q st ts) \<subseteq> set q \<union> set ts"
proof (induction ts arbitrary: q)
  case Nil
  show ?case by simp
next
  case (Cons t ts)
  from Cons.IH[of "q @ [t]"] Cons.IH[of q] show ?case
    by (auto split: option.splits)
qed

lemma Remove_set: "set (Remove q st p) \<subseteq> set q"
proof (cases "firstIndex (\<lambda>x. taskID (st x) = taskID (st p)) q")
  case None
  then show ?thesis by (simp add: Remove_def)
next
  case (Some i)
  then have "i < length q" by (rule firstIndex_less)
  then have ne: "q \<noteq> []" by auto
  have "set (butlast (q[i := last q])) \<subseteq> set (q[i := last q])"
    by (auto dest: in_set_butlastD)
  also have "\<dots> \<subseteq> insert (last q) (set q)" by (rule set_update_subset_insert)
  also have "\<dots> = set q" using ne by auto
  finally show ?thesis using Some by (simp add: Remove_def)
qed

lemma SetStatus_taskID [simp]: "taskID (snd (SetStatus t s)) = taskID t"
  by (simp add: SetStatus_def)

lemma failTask_fields [simp]:
  "taskID (tasks (failTask m p) a) = taskID (tasks m a)"
  "queue (failTask m p) = queue m" "tasksAllocated (failTask m p) = tasksAllocated m"
  by (simp_all add: failTask_def SetStatus_def)

lemma executeTask_fields:
  "taskID (tasks (snd (executeTask m p)) a) = taskID (tasks m a)"
  "queue (snd (executeTask m p)) = queue m"
  "tasksAllocated (snd (executeTask m p)) = tasksAllocated m"
  by (simp_all add: executeTask_def SetStatus_def repositorySave_def executeCommand_def
      executeGameCommand_def Let_def split: option.splits)

lemma proceedTask_fields:
  assumes "proceedTask m p = Return (err, m')"
  shows "taskID (tasks m' a) = taskID (tasks m a)" "queue m' = queue m"
    "tasksAllocated m' = tasksAllocated m"
  using assms
  by (auto simp add: proceedTask_def SetStatus_def Let_def split: option.splits if_splits)

lemma after_step_fields:
  assumes "\<forall>a. taskID (tasks m1 a) = taskID (tasks m a)" and "queue m1 = queue m"
    and "tasksAllocated m1 = tasksAllocated m"
    and "(let m2 = (case err of
                       Some (Error msg) \<Rightarrow>
                         failTask (m1\<lparr>trace := trace m1 @ [Go (GoAppendTaskOutput p msg)]\<rparr>) p
                     | None \<Rightarrow> m1)
           in if GDTask_IsComplete (tasks m2 p) then
                (let m3 = (case taskServer (tasks m2 p) of
                             Some srv \<Rightarrow> m2\<lparr>trace := trace m2 @ [NoticeTaskCompleted srv]\<rparr>
                           | None \<Rightarrow> m2)
                 in Return (repositorySave (m3\<lparr>queue := Remove (queue m3) (tasks m3) p\<rparr>) p))
              else Return m2) = Return m'"
  shows "(\<forall>a. taskID (tasks m' a) = taskID (tasks m a)) \<and>
         (queue m' = queue m \<or> queue m' = Remove (queue m) (tasks m') p) \<and>
         tasksAllocated m' = tasksAllocated m"
proof -
  define m2 where "m2 = (case err of
                       Some (Error msg) \<Rightarrow>
                         failTask (m1\<lparr>trace := trace m1 @ [Go (GoAppendTaskOutput p msg)]\<rparr>) p
                     | None \<Rightarrow> m1)"
  have m2: "\<forall>a. taskID (tasks m2 a) = taskID (tasks m a)" "queue m2 = queue m"
    "tasksAllocated m2 = tasksAllocated m"
    using assms(1-3) by (auto simp add: m2_def split: option.splits error.splits)
  define m3 where "m3 = (case taskServer (tasks m2 p) of
                             Some srv \<Rightarrow> m2\<lparr>trace := trace m2 @ [NoticeTaskCompleted srv]\<rparr>
                           | None \<Rightarrow> m2)"
  have m3: "tasks m3 = tasks m2" "queue m3 = queue m2" "tasksAllocated m3 = tasksAllocated m2"
    by (simp_all add: m3_def split: option.splits)
  from assms(4) have "(if GDTask_IsComplete (tasks m2 p)
      then Return (repositorySave (m3\<lparr>queue := Remove (queue m3) (tasks m3) p\<rparr>) p)
      else Return m2) = Return m'"
    unfolding Let_def m2_def[symmetric] m3_def[symmetric] .
  then have "m' = repositorySave (m3\<lparr>queue := Remove (queue m3) (tasks m3) p\<rparr>) p \<or> m' = m2"
    by (auto split: if_splits)
  then show ?thesis
  proof
    assume "m' = repositorySave (m3\<lparr>queue := Remove (queue m3) (tasks m3) p\<rparr>) p"
    with m2 m3 show ?thesis by (simp add: repositorySave_def)
  next
    assume "m' = m2"
    with m2 show ?thesis by simp
  qed
qed

lemma runNext_task_fields:
  assumes "runNext_task m p = Return m'"
  shows "\<forall>a. taskID (tasks m' a) = taskID (tasks m a)"
    and "queue m' = queue m \<or> queue m' = Remove (queue m) (tasks m') p"
    and "tasksAllocated m' = tasksAllocated m"
proof -
  define r where "r = (if IsWaiting (tasks m p) then Return (executeTask m p)
            else if IsWorking (tasks m p) then proceedTask m p
            else Return (None, m))"
  from assms obtain err m1 where r: "r = Return (err, m1)"
    by (cases r) (auto simp add: runNext_task_def r_def[symmetric])
  have m1: "\<forall>a. taskID (tasks m1 a) = taskID (tasks m a)" "queue m1 = queue m"
    "tasksAllocated m1 = tasksAllocated m"
    using r executeTask_fields[of m p] proceedTask_fields[of m p err m1]
    by (auto simp add: r_def split: if_splits)
  from assms have "(case r of Panic \<Rightarrow> Panic
      | Return (err, m1) \<Rightarrow>
          (let m2 = (case err of
                       Some (Error msg) \<Rightarrow>
                         failTask (m1\<lparr>trace := trace m1 @ [Go (GoAppendTaskOutput p msg)]\<rparr>) p
                     | None \<Rightarrow> m1)
           in if GDTask_IsComplete (tasks m2 p) then
                (let m3 = (case taskServer (tasks m2 p) of
                             Some srv \<Rightarrow> m2\<lparr>trace := trace m2 @ [NoticeTaskCompleted srv]\<rparr>
                           | None \<Rightarrow> m2)
                 in Return (repositorySave (m3\<lparr>queue := Remove (queue m3) (tasks m3) p\<rparr>) p))
              else Return m2)) = Return m'"
    unfolding runNext_task_def r_def .
  then have "(let m2 = (case err of
                       Some (Error msg) \<Rightarrow>
                         failTask (m1\<lparr>trace := trace m1 @ [Go (GoAppendTaskOutput p msg)]\<rparr>) p
                     | None \<Rightarrow> m1)
           in if GDTask_IsComplete (tasks m2 p) then
                (let m3 = (case taskServer (tasks m2 p) of
                             Some srv \<Rightarrow> m2\<lparr>trace := trace m2 @ [NoticeTaskCompleted srv]\<rparr>
                           | None \<Rightarrow> m2)
                 in Return (repositorySave (m3\<lparr>queue := Remove (queue m3) (tasks m3) p\<rparr>) p))
              else Return m2) = Return m'"
    unfolding r by (simp only: call.case prod.case)
  from after_step_fields[OF m1 this]
  show "\<forall>a. taskID (tasks m' a) = taskID (tasks m a)"
    and "queue m' = queue m \<or> queue m' = Remove (queue m) (tasks m') p"
    and "tasksAllocated m' = tasksAllocated m"
    by simp_all
qed

lemma Next_queue:
  assumes "distinct (map (\<lambda>p. taskID (st p)) q)" and "Next q st = (Some t, q')"
  shows "distinct (map (\<lambda>p. taskID (st p)) q')" and "set q' \<subseteq> set q"
proof -
  from assms(2) obtain rest where q: "q = t # rest" and q': "q' = insert_tasks rest st [t]"
    by (cases q) (auto simp add: Next_def dequeue_def)
  from assms(1) q have "distinct (map (\<lambda>p. taskID (st p)) rest)" by simp
  from insert_tasks_distinct[OF this, of "[t]"] q'
  show "distinct (map (\<lambda>p. taskID (st p)) q')" by (simp del: insert_tasks.simps)
  from insert_tasks_set[of rest st "[t]"] q q' show "set q' \<subseteq> set q" by auto
qed

lemma runNext_invariant:
  assumes "queue_invariant m" and "runNext m = Return m'"
  shows "queue_invariant m'"
proof (cases "Next (queue m) (tasks m)")
  case (Pair nx q')
  show ?thesis
  proof (cases nx)
    case None
    with Pair assms show ?thesis by (simp add: runNext_def)
  next
    case (Some t)
    from assms(1) have d: "distinct (map (\<lambda>p. taskID (tasks m p)) (queue m))"
      and b: "\<forall>p \<in> set (queue m). p < tasksAllocated m"
      by (simp_all add: queue_invariant_def)
    from Next_queue[OF d Pair[unfolded Some]]
    have d': "distinct (map (\<lambda>p. taskID (tasks m p)) q')" and s': "set q' \<subseteq> set (queue m)"
      by simp_all
    then have inv1: "queue_invariant (m\<lparr>queue := q'\<rparr>)"
      using b by (auto simp add: queue_invariant_def)
    show ?thesis
    proof (cases "shouldTaskWaitForAnotherToComplete (m\<lparr>queue := q'\<rparr>) t")
      case True
      with Pair Some assms(2) inv1 show ?thesis by (simp add: runNext_def)
    next
      case False
      with Pair Some assms(2) have run: "runNext_task (m\<lparr>queue := q'\<rparr>) t = Return m'"
        by (simp add: runNext_def)
      note f = runNext_task_fields[OF run]
      from f(1) have ids: "\<And>q. distinct (map (\<lambda>p. taskID (tasks m' p)) q) =
          distinct (map (\<lambda>p. taskID (tasks m p)) q)"
        by simp
      from f(2) show ?thesis
      proof
        assume "queue m' = queue (m\<lparr>queue := q'\<rparr>)"
        with d' s' b f(3) show ?thesis
          by (auto simp add: queue_invariant_def ids)
      next
        assume rm: "queue m' = Remove (queue (m\<lparr>queue := q'\<rparr>)) (tasks m') t"
        from d' have "distinct (map (\<lambda>p. taskID (tasks m' p)) q')" by (simp add: ids)
        from Remove_distinct[OF this, of t] rm
        have "distinct (map (\<lambda>p. taskID (tasks m' p)) (queue m'))" by simp
        moreover from Remove_set[of q' "tasks m'" t] rm s' b f(3)
        have "\<forall>p \<in> set (queue m'). p < tasksAllocated m'" by auto
        ultimately show ?thesis by (simp add: queue_invariant_def)
      qed
    qed
  qed
qed

lemma allocate_commands [simp]:
  "commandsInProgress (snd (allocate ts m)) = commandsInProgress m"
  by (induction ts arbitrary: m) (simp_all add: allocate_Cons del: allocate.simps(2))

lemma distinct_ids_old:
  assumes "\<forall>p \<in> set q. st' p = st p"
  shows "distinct (map (\<lambda>p. taskID (st' p)) q) = distinct (map (\<lambda>p. taskID (st p)) q)"
proof -
  from assms have "map (\<lambda>p. taskID (st' p)) q = map (\<lambda>p. taskID (st p)) q" by simp
  then show ?thesis by (rule arg_cong)
qed

lemma allocate_invariant:
  assumes "queue_invariant m"
  shows "queue_invariant (snd (allocate ts m))"
proof -
  from assms have b: "\<forall>p \<in> set (queue m). p < tasksAllocated m"
    and d: "distinct (map (\<lambda>p. taskID (tasks m p)) (queue m))"
    by (simp_all add: queue_invariant_def)
  from b have "\<forall>p \<in> set (queue m). tasks (snd (allocate ts m)) p = tasks m p"
    by (simp add: allocate_old)
  from distinct_ids_old[OF this] d b show ?thesis
    by (auto simp add: queue_invariant_def)
qed

lemma updateTasksIfNeeded_invariant:
  assumes "queue_invariant m"
  shows "queue_invariant (snd (updateTasksIfNeeded m now now' answer))"
proof -
  obtain ts err where answer: "answer = (ts, err)" by (cases answer)
  define m1 where "m1 = snd (allocate ts m)"
  define ps where "ps = fst (allocate ts m)"
  have al: "allocate ts m = (ps, m1)" by (simp add: ps_def m1_def)
  have inv1: "queue_invariant m1" unfolding m1_def by (rule allocate_invariant[OF assms])
  have ps: "\<forall>p \<in> set ps. p < tasksAllocated m1"
    by (simp add: ps_def m1_def allocate_addresses)
  from inv1 have d: "distinct (map (\<lambda>p. taskID (tasks m1 p)) (queue m1))"
    and b: "\<forall>p \<in> set (queue m1). p < tasksAllocated m1"
    by (simp_all add: queue_invariant_def)
  have "queue_invariant (m1\<lparr>queue := insert_tasks (queue m1) (tasks m1) ps\<rparr>)"
    using insert_tasks_distinct[OF d, of ps] insert_tasks_set[of "queue m1" "tasks m1" ps] b ps
    by (auto simp add: queue_invariant_def)
  with inv1 assms show ?thesis
    by (simp add: updateTasksIfNeeded_def answer al queue_invariant_def split: option.splits)
qed

lemma failWorkingTask_queue [simp]: "queue (failWorkingTask p m) = queue m"
  by (simp add: failWorkingTask_def SetStatus_def repositorySave_def appendTaskOutput_def)

lemma failWorkingTask_taskID [simp]:
  "taskID (tasks (failWorkingTask p m) a) = taskID (tasks m a)"
  by (simp add: failWorkingTask_tasks)

lemma failWorkingTask_invariant:
  "queue_invariant m \<Longrightarrow> queue_invariant (failWorkingTask p m)"
  by (simp add: queue_invariant_def)

lemma fold_failWorkingTask_invariant:
  "queue_invariant m \<Longrightarrow> queue_invariant (fold failWorkingTask ps m)"
  by (induction ps arbitrary: m) (simp_all add: failWorkingTask_invariant)

lemma Run_entry_invariant:
  assumes "queue_invariant m"
  shows "queue_invariant (Run_entry m working now now' waiting)"
proof -
  obtain ts err where working: "working = (ts, err)" by (cases working)
  have "queue_invariant (failWorkingTaskAfterRestart m working)"
    using fold_failWorkingTask_invariant[OF allocate_invariant[OF assms, of ts]]
    by (simp add: failWorkingTaskAfterRestart_def working split: prod.splits)
       (metis snd_conv)
  then show ?thesis
    unfolding Run_entry_def by (rule updateTasksIfNeeded_invariant)
qed

end
